theory Spec2Isabelle
  imports Main "HOL-Library.Log_Nat"
begin

section \<open>The JavaScript values the controllers compute with\<close>

subsection \<open>Strings\<close>

text \<open>
  Strings are lists of 8-bit characters. \<open>toLowerCase\<close> and \<open>toUpperCase\<close> change the
  ASCII letters; no other character is mapped to or from an ASCII letter that occurs
  in the words the code compares with (\<open>week\<close>, \<open>month\<close>, \<open>year\<close>) or in the
  alphabet of a base-36 numeral, and an email that the schema's pattern accepts has
  ASCII characters only.
\<close>

definition lowerChar :: "char \<Rightarrow> char" where
  "lowerChar c =
     (if 65 \<le> (of_char c :: nat) \<and> (of_char c :: nat) \<le> 90
      then char_of ((of_char c :: nat) + 32) else c)"

definition upperChar :: "char \<Rightarrow> char" where
  "upperChar c =
     (if 97 \<le> (of_char c :: nat) \<and> (of_char c :: nat) \<le> 122
      then char_of ((of_char c :: nat) - 32) else c)"

definition toLowerCase :: "string \<Rightarrow> string" where
  "toLowerCase s = map lowerChar s"

definition toUpperCase :: "string \<Rightarrow> string" where
  "toUpperCase s = map upperChar s"

definition isDigit :: "char \<Rightarrow> bool" where
  "isDigit c \<longleftrightarrow> 48 \<le> (of_char c :: nat) \<and> (of_char c :: nat) \<le> 57"

definition digitChar :: "nat \<Rightarrow> char" where
  "digitChar d = ''0123456789abcdefghijklmnopqrstuvwxyz'' ! d"

text \<open>The digits of a non-negative integer in a radix from 2 to 36, most significant first.\<close>

function digitsOf :: "int \<Rightarrow> int \<Rightarrow> string" where
  "digitsOf radix n =
     (if radix < 2 \<or> n < radix then [digitChar (nat n)]
      else digitsOf radix (n div radix) @ [digitChar (nat (n mod radix))])"
  by pat_completeness auto
termination
proof (relation "measure (\<lambda>(radix, n). nat n)")
  show "wf (measure (\<lambda>(radix, n). nat n))" by simp
next
  fix radix n :: int
  assume "\<not> (radix < 2 \<or> n < radix)"
  then have r: "2 \<le> radix" and n: "radix \<le> n" by simp_all
  have "n div radix < n" using r n by (intro int_div_less_self) simp_all
  moreover have "0 < n" using r n by simp
  ultimately show "((radix, n div radix), (radix, n)) \<in> measure (\<lambda>(radix, n). nat n)"
    by simp
qed

declare digitsOf.simps [simp del]

subsection \<open>Numbers\<close>

text \<open>
  A Number is an IEEE binary64 value; the finite ones are rationals. \<open>fl\<close> rounds a
  rational to the nearest binary64 value, ties to the even significand, for results in
  the normal range (the quotients and products of the counts below never leave it).
  Each arithmetic operator of the source is the exact operation followed by \<open>fl\<close>.
\<close>

definition pow2 :: "int \<Rightarrow> rat" where
  "pow2 e = (if 0 \<le> e then 2 ^ nat e else 1 / 2 ^ nat (- e))"

definition ilog2 :: "rat \<Rightarrow> int" where
  "ilog2 a =
     (let k = bitlen (fst (quotient_of a)) - bitlen (snd (quotient_of a))
      in if pow2 k \<le> a then k else k - 1)"

definition roundHalfEven :: "rat \<Rightarrow> int" where
  "roundHalfEven m =
     (let f = \<lfloor>m\<rfloor>; r = m - of_int f
      in if r < 1 / 2 then f else if 1 / 2 < r then f + 1
         else if even f then f else f + 1)"

definition fl :: "rat \<Rightarrow> rat" where
  "fl q =
     (if q = 0 then 0
      else let a = \<bar>q\<bar>; e = ilog2 a; u = pow2 (e - 52); n = roundHalfEven (a / u)
           in sgn q * of_int n * u)"

definition numSub :: "rat \<Rightarrow> rat \<Rightarrow> rat" where
  "numSub a b = fl (a - b)"

definition numDiv :: "rat \<Rightarrow> rat \<Rightarrow> rat" where
  "numDiv a b = fl (a / b)"

definition numMul :: "rat \<Rightarrow> rat \<Rightarrow> rat" where
  "numMul a b = fl (a * b)"

text \<open>
  \<open>Number.prototype.toFixed(f)\<close> for \<open>\<bar>x\<bar> < 10^21\<close>: the sign is split off, \<open>n\<close> is the
  integer for which \<open>n / 10^f - x\<close> is closest to zero (the larger one of two), and its
  decimal digits are padded to \<open>f + 1\<close> places before the point is inserted.
\<close>

definition fixedDigits :: "int \<Rightarrow> nat \<Rightarrow> string" where
  "fixedDigits n f =
     (let m = (if n = 0 then ''0'' else digitsOf 10 n)
      in if f \<noteq> 0
         then let m' = (if length m \<le> f then replicate (f + 1 - length m) CHR ''0'' @ m else m);
                  k = length m'
              in take (k - f) m' @ ''.'' @ drop (k - f) m'
         else m)"

definition toFixed :: "rat \<Rightarrow> nat \<Rightarrow> string" where
  "toFixed x0 f =
     (let s = (if x0 < 0 then ''-'' else []);
          x = (if x0 < 0 then - x0 else x0);
          n = \<lfloor>x * 10 ^ f + 1 / 2\<rfloor>
      in s @ fixedDigits n f)"

text \<open>
  What a handler holds after \<open>calculateChange\<close>: a Number (the literals \<open>100\<close> and \<open>0\<close>)
  or the String that \<open>toFixed\<close> returned.
\<close>

datatype jsval = JNum int | JStr string

text \<open>
  \<open>ToNumber\<close> of a string, on the decimal literals \<open>toFixed\<close> produces: an optional
  minus sign, digits, and optionally a point and digits. \<open>None\<close> is NaN.
\<close>

fun digitsValue :: "string \<Rightarrow> int \<Rightarrow> int" where
  "digitsValue [] acc = acc"
| "digitsValue (c # cs) acc = digitsValue cs (10 * acc + ((of_char c :: int) - 48))"

definition unsignedLiteral :: "string \<Rightarrow> rat option" where
  "unsignedLiteral s =
     (let ip = takeWhile (\<lambda>c. c \<noteq> CHR ''.'') s; rest = dropWhile (\<lambda>c. c \<noteq> CHR ''.'') s
      in if ip = [] \<or> \<not> list_all isDigit ip then None
         else if rest = [] then Some (of_int (digitsValue ip 0))
         else let fp = tl rest
              in if fp = [] \<or> \<not> list_all isDigit fp then None
                 else Some (of_int (digitsValue ip 0)
                            + of_int (digitsValue fp 0) / 10 ^ length fp))"

definition stringToNumber :: "string \<Rightarrow> rat option" where
  "stringToNumber s =
     (case s of
        c # cs \<Rightarrow> if c = CHR ''-'' then map_option uminus (unsignedLiteral cs)
                  else unsignedLiteral s
      | [] \<Rightarrow> unsignedLiteral s)"

text \<open>\<open>v >= 0\<close>: a String operand is converted with \<open>ToNumber\<close>; NaN compares false.\<close>

definition geZero :: "jsval \<Rightarrow> bool" where
  "geZero v =
     (case v of
        JNum n \<Rightarrow> 0 \<le> n
      | JStr s \<Rightarrow> (case stringToNumber s of Some q \<Rightarrow> 0 \<le> q | None \<Rightarrow> False))"

text \<open>\<open>${v}\<close> in a template literal: \<open>ToString\<close> of an integral Number, a String as it is.\<close>

definition toStringJs :: "jsval \<Rightarrow> string" where
  "toStringJs v =
     (case v of
        JNum n \<Rightarrow> (if n < 0 then ''-'' @ digitsOf 10 (- n) else digitsOf 10 n)
      | JStr s \<Rightarrow> s)"

section \<open>The summary's percentage change\<close>

text \<open>
  \<open>calculateChange\<close> of \<open>getCustomerSummary\<close>; its arguments are results of
  \<open>countDocuments\<close>, natural numbers. \<open>percentChange\<close> is its expression
  \<open>(current - previous) / previous * 100\<close>.
\<close>

definition percentChange :: "nat \<Rightarrow> nat \<Rightarrow> rat" where
  "percentChange current previous =
     numMul (numDiv (numSub (of_nat current) (of_nat previous)) (of_nat previous)) 100"

definition calculateChange :: "nat \<Rightarrow> nat \<Rightarrow> jsval" where
  "calculateChange current previous =
     (if previous = 0 then (if current > 0 then JNum 100 else JNum 0)
      else JStr (toFixed (percentChange current previous) 2))"

text \<open>The template \<open>`${change >= 0 ? '+' : ''}${change}%`\<close> of the response.\<close>

definition renderChange :: "jsval \<Rightarrow> string" where
  "renderChange change = (if geZero change then ''+'' else '''') @ toStringJs change @ ''%''"

definition changeString :: "nat \<Rightarrow> nat \<Rightarrow> string" where
  "changeString current previous = renderChange (calculateChange current previous)"

section \<open>Dates\<close>

text \<open>
  A Date object is its time value: integer milliseconds since the epoch. The functions
  below are the day, year, month and date algorithms of ECMA-262 that
  \<open>getDate\<close>, \<open>setDate\<close>, \<open>getMonth\<close>, \<open>setMonth\<close>, \<open>getFullYear\<close> and
  \<open>setFullYear\<close> are defined by. Every time value met stays inside the range in
  which \<open>TimeClip\<close> is the identity.
\<close>

definition msPerDay :: int where
  "msPerDay = 86400000"

definition Day :: "int \<Rightarrow> int" where
  "Day t = t div msPerDay"

definition TimeWithinDay :: "int \<Rightarrow> int" where
  "TimeWithinDay t = t mod msPerDay"

definition DaysInYear :: "int \<Rightarrow> int" where
  "DaysInYear y =
     (if y mod 4 \<noteq> 0 then 365 else if y mod 100 \<noteq> 0 then 366
      else if y mod 400 \<noteq> 0 then 365 else 366)"

definition DayFromYear :: "int \<Rightarrow> int" where
  "DayFromYear y =
     365 * (y - 1970) + (y - 1969) div 4 - (y - 1901) div 100 + (y - 1601) div 400"

lemma div_step:
  fixes a k :: int
  assumes k: "0 < k"
  shows "(a + 1) div k = a div k + (if (a + 1) mod k = 0 then 1 else 0)"
proof -
  have eq: "a = k * (a div k) + a mod k" by simp
  have lo: "0 \<le> a mod k" and hi: "a mod k < k" using k by simp_all
  show ?thesis
  proof (cases "a mod k + 1 < k")
    case True
    have e: "a + 1 = k * (a div k) + (a mod k + 1)" using eq by linarith
    have d: "(a + 1) div k = a div k"
      by (rule int_div_pos_eq [OF e]) (use lo True in simp_all)
    have m: "(a + 1) mod k = a mod k + 1"
      by (rule int_mod_pos_eq [OF e]) (use lo True in simp_all)
    show ?thesis using d m lo by simp
  next
    case False
    then have r: "a mod k = k - 1" using hi by linarith
    have e: "a + 1 = k * (a div k + 1) + 0" using eq r by (simp add: algebra_simps)
    have d: "(a + 1) div k = a div k + 1"
      by (rule int_div_pos_eq [OF e]) (use k in simp_all)
    have m: "(a + 1) mod k = 0"
      by (rule int_mod_pos_eq [OF e]) (use k in simp_all)
    show ?thesis using d m by simp
  qed
qed

lemma year_mod_shift:
  fixes y :: int
  shows "(y - 1968) mod 4 = y mod 4" and "(y - 1900) mod 100 = y mod 100"
    and "(y - 1600) mod 400 = y mod 400"
proof -
  have "(y - 1968) mod 4 = (y + 4 * (- 492)) mod 4" by simp
  also have "\<dots> = y mod 4" by (rule mod_mult_self2)
  finally show "(y - 1968) mod 4 = y mod 4" .
  have "(y - 1900) mod 100 = (y + 100 * (- 19)) mod 100" by simp
  also have "\<dots> = y mod 100" by (rule mod_mult_self2)
  finally show "(y - 1900) mod 100 = y mod 100" .
  have "(y - 1600) mod 400 = (y + 400 * (- 4)) mod 400" by simp
  also have "\<dots> = y mod 400" by (rule mod_mult_self2)
  finally show "(y - 1600) mod 400 = y mod 400" .
qed

lemma DayFromYear_next: "DayFromYear (y + 1) = DayFromYear y + DaysInYear y"
proof -
  have a: "(y + 1 - 1969) div 4 = (y - 1969) div 4 + (if y mod 4 = 0 then 1 else 0)"
    using div_step [of 4 "y - 1969"] year_mod_shift(1) [of y] by (simp add: algebra_simps)
  have b: "(y + 1 - 1901) div 100 = (y - 1901) div 100 + (if y mod 100 = 0 then 1 else 0)"
    using div_step [of 100 "y - 1901"] year_mod_shift(2) [of y] by (simp add: algebra_simps)
  have c: "(y + 1 - 1601) div 400 = (y - 1601) div 400 + (if y mod 400 = 0 then 1 else 0)"
    using div_step [of 400 "y - 1601"] year_mod_shift(3) [of y] by (simp add: algebra_simps)
  have "y mod 400 mod 100 = y mod 100" by (rule mod_mod_cancel) simp
  then have d: "y mod 400 = 0 \<Longrightarrow> y mod 100 = 0" by simp
  have "y mod 100 mod 4 = y mod 4" by (rule mod_mod_cancel) simp
  then have e: "y mod 100 = 0 \<Longrightarrow> y mod 4 = 0" by simp
  have alg: "\<And>A B C i j k x :: int.
      365 * (x + 1 - 1970) + (A + i) - (B + j) + (C + k)
        = 365 * (x - 1970) + A - B + C + (365 + i - j + k)"
    by simp
  have f: "(365::int) + (if y mod 4 = 0 then 1 else 0) - (if y mod 100 = 0 then 1 else 0)
      + (if y mod 400 = 0 then 1 else 0) = DaysInYear y"
    unfolding DaysInYear_def using d e
    by (cases "y mod 4 = 0"; cases "y mod 100 = 0"; cases "y mod 400 = 0") simp_all
  show ?thesis
    unfolding DayFromYear_def a b c alg f ..
qed

lemma DayFromYear_less: "DayFromYear y < DayFromYear (y + 1)"
  by (simp add: DayFromYear_next DaysInYear_def)

text \<open>
  \<open>YearFromTime t\<close> is the largest year \<open>y\<close> whose first day is not after \<open>t\<close>: the search
  starts at a year that is not too late and moves forward while the next year still
  starts in time.
\<close>

function yearSearch :: "int \<Rightarrow> int \<Rightarrow> int" where
  "yearSearch y d = (if DayFromYear (y + 1) \<le> d then yearSearch (y + 1) d else y)"
  by pat_completeness auto
termination
proof (relation "measure (\<lambda>(y, d). nat (d - DayFromYear y))")
  show "wf (measure (\<lambda>(y, d). nat (d - DayFromYear y)))" by simp
next
  fix y d :: int
  assume "DayFromYear (y + 1) \<le> d"
  moreover have "DayFromYear y < DayFromYear (y + 1)" by (rule DayFromYear_less)
  ultimately show "((y + 1, d), (y, d)) \<in> measure (\<lambda>(y, d). nat (d - DayFromYear y))"
    by simp
qed

declare yearSearch.simps [simp del]

definition YearFromTime :: "int \<Rightarrow> int" where
  "YearFromTime t =
     (let d = Day t
      in yearSearch (1970 + (if 0 \<le> d then d div 366 else d div 365)) d)"

definition InLeapYear :: "int \<Rightarrow> int" where
  "InLeapYear t = (if DaysInYear (YearFromTime t) = 366 then 1 else 0)"

definition DayWithinYear :: "int \<Rightarrow> int" where
  "DayWithinYear t = Day t - DayFromYear (YearFromTime t)"

text \<open>The day of the year on which month \<open>m\<close> (0 to 11) starts; \<open>leap\<close> is 1 in a leap year.\<close>

definition monthStart :: "int \<Rightarrow> int \<Rightarrow> int" where
  "monthStart leap m =
     (if m = 0 then 0 else if m = 1 then 31 else if m = 2 then 59 + leap
      else if m = 3 then 90 + leap else if m = 4 then 120 + leap
      else if m = 5 then 151 + leap else if m = 6 then 181 + leap
      else if m = 7 then 212 + leap else if m = 8 then 243 + leap
      else if m = 9 then 273 + leap else if m = 10 then 304 + leap
      else 334 + leap)"

definition MonthFromTime :: "int \<Rightarrow> int" where
  "MonthFromTime t =
     (let d = DayWithinYear t; leap = InLeapYear t
      in if d < 31 then 0 else if d < 59 + leap then 1 else if d < 90 + leap then 2
         else if d < 120 + leap then 3 else if d < 151 + leap then 4
         else if d < 181 + leap then 5 else if d < 212 + leap then 6
         else if d < 243 + leap then 7 else if d < 273 + leap then 8
         else if d < 304 + leap then 9 else if d < 334 + leap then 10 else 11)"

definition DateFromTime :: "int \<Rightarrow> int" where
  "DateFromTime t = DayWithinYear t - monthStart (InLeapYear t) (MonthFromTime t) + 1"

definition MakeDay :: "int \<Rightarrow> int \<Rightarrow> int \<Rightarrow> int" where
  "MakeDay year month date =
     (let ym = year + month div 12; mn = month mod 12
      in DayFromYear ym + monthStart (if DaysInYear ym = 366 then 1 else 0) mn + date - 1)"

definition MakeDate :: "int \<Rightarrow> int \<Rightarrow> int" where
  "MakeDate day time = day * msPerDay + time"

text \<open>
  The host's time zone: its offset from UTC in milliseconds before the first change,
  and the changes of the offset (daylight saving time starting or ending, or a change
  of the standard time), each with the instant it takes effect and the offset from
  then on, in ascending order of the instants.
\<close>

record zone =
  baseOffset :: int
  transitions :: "(int \<times> int) list"

text \<open>The offset in force at the instant \<open>t\<close>.\<close>

fun offsetAt :: "int \<Rightarrow> (int \<times> int) list \<Rightarrow> int \<Rightarrow> int" where
  "offsetAt off [] t = off"
| "offsetAt off ((instant, off') # rest) t =
     (if t < instant then off else offsetAt off' rest t)"

text \<open>
  The offset a local date and time \<open>t\<close> is read with. A local time that occurs twice
  (the clocks were set back) is the earlier of its two instants, and a local time that
  is skipped (the clocks were set forward) is read with the offset before the change:
  in both cases the offset before the change applies up to the later of the two local
  readings of the instant of the change.
\<close>

fun offsetOfLocal :: "int \<Rightarrow> (int \<times> int) list \<Rightarrow> int \<Rightarrow> int" where
  "offsetOfLocal off [] t = off"
| "offsetOfLocal off ((instant, off') # rest) t =
     (if t < instant + max off off' then off else offsetOfLocal off' rest t)"

definition LocalTime :: "zone \<Rightarrow> int \<Rightarrow> int" where
  "LocalTime z t = t + offsetAt (baseOffset z) (transitions z) t"

definition UTC :: "zone \<Rightarrow> int \<Rightarrow> int" where
  "UTC z t = t - offsetOfLocal (baseOffset z) (transitions z) t"

definition getDate :: "zone \<Rightarrow> int \<Rightarrow> int" where
  "getDate z t = DateFromTime (LocalTime z t)"

definition getMonth :: "zone \<Rightarrow> int \<Rightarrow> int" where
  "getMonth z t = MonthFromTime (LocalTime z t)"

definition getFullYear :: "zone \<Rightarrow> int \<Rightarrow> int" where
  "getFullYear z t = YearFromTime (LocalTime z t)"

definition setDate :: "zone \<Rightarrow> int \<Rightarrow> int \<Rightarrow> int" where
  "setDate z t dt =
     (let lt = LocalTime z t
      in UTC z (MakeDate (MakeDay (YearFromTime lt) (MonthFromTime lt) dt) (TimeWithinDay lt)))"

definition setMonth :: "zone \<Rightarrow> int \<Rightarrow> int \<Rightarrow> int" where
  "setMonth z t m =
     (let lt = LocalTime z t
      in UTC z (MakeDate (MakeDay (YearFromTime lt) m (DateFromTime lt)) (TimeWithinDay lt)))"

definition setFullYear :: "zone \<Rightarrow> int \<Rightarrow> int \<Rightarrow> int" where
  "setFullYear z t y =
     (let lt = LocalTime z t
      in UTC z (MakeDate (MakeDay y (MonthFromTime lt) (DateFromTime lt)) (TimeWithinDay lt)))"

section \<open>The customer collection\<close>

text \<open>
  A stored Customer document (\<open>models/Customer.js\<close>, with the \<open>timestamps\<close> option).
  The count fields hold integers, dates are time values, \<open>status\<close> is the stored string.
\<close>

record customer =
  ident :: nat
  customerName :: string
  email :: string
  phone :: string
  ordersCount :: int
  orderTotal :: rat
  customerSince :: int
  status :: string
  abandonedCarts :: int
  createdAt :: int
  updatedAt :: int

text \<open>\<open>Customer.countDocuments(filter)\<close> over the collection.\<close>

definition countDocuments :: "(customer \<Rightarrow> bool) \<Rightarrow> customer list \<Rightarrow> nat" where
  "countDocuments p db = length (filter p db)"

text \<open>
  \<open>Customer.aggregate([{ $group: { _id: null, total: { $sum: '$abandonedCarts' } } }])\<close>:
  one group holding the sum, and no group at all for an empty collection.
\<close>

definition aggregateAbandonedCarts :: "customer list \<Rightarrow> int list" where
  "aggregateAbandonedCarts db = (if db = [] then [] else [sum_list (map abandonedCarts db)])"

section \<open>getCustomerSummary\<close>

text \<open>
  A value of \<open>req.query\<close>: absent, a string, or what the query-string parser builds
  from a repeated or bracketed key (an array or an object, which has no
  \<open>toLowerCase\<close>).
\<close>

datatype queryValue = QAbsent | QString string | QStructured

text \<open>\<open>const { timeframe = 'week' } = req.query\<close>, for the values that are strings.\<close>

definition timeframeOr :: "queryValue \<Rightarrow> string" where
  "timeframeOr q = (case q of QString s \<Rightarrow> s | _ \<Rightarrow> ''week'')"

text \<open>The \<open>switch\<close> on \<open>timeframe.toLowerCase()\<close> that sets \<open>startDate\<close>.\<close>

definition startDate :: "zone \<Rightarrow> int \<Rightarrow> string \<Rightarrow> int" where
  "startDate z today timeframe =
     (let k = toLowerCase timeframe
      in if k = ''week'' then setDate z today (getDate z today - 7)
         else if k = ''month'' then setMonth z today (getMonth z today - 1)
         else if k = ''year'' then setFullYear z today (getFullYear z today - 1)
         else setDate z today (getDate z today - 7))"

text \<open>
  \<open>Math.floor((today - startDate) / (1000 * 60 * 60 * 24))\<close>. Both operands are
  integers and the period is a few hundred days at most, where the binary64 quotient
  followed by \<open>floor\<close> is the integer quotient rounded down.
\<close>

definition periodDays :: "int \<Rightarrow> int \<Rightarrow> int" where
  "periodDays today start = (today - start) div (1000 * 60 * 60 * 24)"

definition previousStartDate :: "zone \<Rightarrow> int \<Rightarrow> int \<Rightarrow> int" where
  "previousStartDate z start days = setDate z start (getDate z start - days)"

text \<open>The ten queries, in the order of the source.\<close>

definition allCustomers :: "customer list \<Rightarrow> nat" where
  "allCustomers db = countDocuments (\<lambda>c. True) db"

definition activeCustomers :: "customer list \<Rightarrow> nat" where
  "activeCustomers db = countDocuments (\<lambda>c. status c = ''active'') db"

definition inactiveCustomers :: "customer list \<Rightarrow> nat" where
  "inactiveCustomers db = countDocuments (\<lambda>c. status c = ''inactive'') db"

definition newCustomers :: "int \<Rightarrow> customer list \<Rightarrow> nat" where
  "newCustomers start db = countDocuments (\<lambda>c. start \<le> customerSince c) db"

definition purchasingCustomers :: "customer list \<Rightarrow> nat" where
  "purchasingCustomers db = countDocuments (\<lambda>c. 0 < ordersCount c) db"

definition prevAllCustomers :: "int \<Rightarrow> customer list \<Rightarrow> nat" where
  "prevAllCustomers start db = countDocuments (\<lambda>c. customerSince c < start) db"

definition prevActiveCustomers :: "int \<Rightarrow> customer list \<Rightarrow> nat" where
  "prevActiveCustomers start db =
     countDocuments (\<lambda>c. status c = ''active'' \<and> customerSince c < start) db"

definition prevInactiveCustomers :: "int \<Rightarrow> customer list \<Rightarrow> nat" where
  "prevInactiveCustomers start db =
     countDocuments (\<lambda>c. status c = ''inactive'' \<and> customerSince c < start) db"

definition prevNewCustomers :: "int \<Rightarrow> int \<Rightarrow> customer list \<Rightarrow> nat" where
  "prevNewCustomers previousStart start db =
     countDocuments (\<lambda>c. previousStart \<le> customerSince c \<and> customerSince c < start) db"

text \<open>\<open>totalAbandonedCarts[0]?.total || 0\<close>.\<close>

definition abandonedCartsValue :: "int list \<Rightarrow> int" where
  "abandonedCartsValue groups =
     (case groups of [] \<Rightarrow> 0 | sumTotal # _ \<Rightarrow> (if sumTotal = 0 then 0 else sumTotal))"

text \<open>The response: a metric is a value and a change, \<open>None\<close> for \<open>null\<close>.\<close>

record metric =
  mvalue :: int
  change :: "string option"

record summaryMetrics =
  m_allCustomers :: metric
  m_activeCustomers :: metric
  m_inactiveCustomers :: metric
  m_newCustomers :: metric
  m_purchasingCustomers :: metric
  m_abandonedCarts :: metric

datatype summaryResponse =
    Summary200 string summaryMetrics
  | Summary500

text \<open>
  The handler, with the clock (\<open>today = new Date()\<close>) and the host's time zone as
  parameters. \<open>timeframe.toLowerCase()\<close> throws a TypeError on a value that is not
  a string; the \<open>catch\<close> block answers 500.
\<close>

definition getCustomerSummary ::
    "zone \<Rightarrow> int \<Rightarrow> queryValue \<Rightarrow> customer list \<Rightarrow> summaryResponse" where
  "getCustomerSummary z today q db =
     (case q of
        QStructured \<Rightarrow> Summary500
      | _ \<Rightarrow>
        (let timeframe = timeframeOr q;
             start = startDate z today timeframe;
             days = periodDays today start;
             previousStart = previousStartDate z start days;
             totalAbandonedCarts = aggregateAbandonedCarts db
         in Summary200 timeframe
              \<lparr> m_allCustomers =
                  \<lparr> mvalue = int (allCustomers db),
                    change = Some (changeString (allCustomers db) (prevAllCustomers start db)) \<rparr>,
                m_activeCustomers =
                  \<lparr> mvalue = int (activeCustomers db),
                    change = Some (changeString (activeCustomers db)
                                     (prevActiveCustomers start db)) \<rparr>,
                m_inactiveCustomers =
                  \<lparr> mvalue = int (inactiveCustomers db),
                    change = Some (changeString (inactiveCustomers db)
                                     (prevInactiveCustomers start db)) \<rparr>,
                m_newCustomers =
                  \<lparr> mvalue = int (newCustomers start db),
                    change = Some (changeString (newCustomers start db)
                                     (prevNewCustomers previousStart start db)) \<rparr>,
                m_purchasingCustomers =
                  \<lparr> mvalue = int (purchasingCustomers db), change = None \<rparr>,
                m_abandonedCarts =
                  \<lparr> mvalue = abandonedCartsValue totalAbandonedCarts, change = None \<rparr> \<rparr>))"

section \<open>The Customer model's reads and writes\<close>

text \<open>
  What Mongoose does for the handlers, as far as \<open>models/Customer.js\<close> decides it.
  A request body is modelled after JSON parsing, each present field holding a value of
  its schema type (\<open>None\<close> is \<open>undefined\<close>, a date is given as its time value, a
  number); \<open>req.params.id\<close> is the identity it casts
  to, \<open>None\<close> when the text is not an ObjectId (the query then throws a CastError).
\<close>

record customerBody =
  b_customerName :: "string option"
  b_email :: "string option"
  b_phone :: "string option"
  b_ordersCount :: "int option"
  b_orderTotal :: "rat option"
  b_customerSince :: "int option"
  b_status :: "string option"
  b_abandonedCarts :: "int option"

text \<open>
  The schema's setters: \<open>trim: true\<close> (white space at both ends, here the ASCII
  white space and the no-break space) and \<open>lowercase: true\<close>.
\<close>

definition isSpace :: "char \<Rightarrow> bool" where
  "isSpace c \<longleftrightarrow> (of_char c :: nat) \<in> {9, 10, 11, 12, 13, 32, 160}"

definition trim :: "string \<Rightarrow> string" where
  "trim s = rev (dropWhile isSpace (rev (dropWhile isSpace s)))"

text \<open>
  The schema's validators, run on every path of a document before it is written. The
  \<open>match\<close> pattern of the email is a parameter, \<open>emailMatch\<close>.
\<close>

definition validateCustomer :: "(string \<Rightarrow> bool) \<Rightarrow> customer \<Rightarrow> bool" where
  "validateCustomer emailMatch c \<longleftrightarrow>
     customerName c \<noteq> [] \<and> length (customerName c) \<le> 100
     \<and> email c \<noteq> [] \<and> emailMatch (email c)
     \<and> phone c \<noteq> []
     \<and> 0 \<le> ordersCount c
     \<and> 0 \<le> orderTotal c
     \<and> (status c = ''active'' \<or> status c = ''inactive'')
     \<and> 0 \<le> abandonedCarts c"

datatype storeError = ValidationError | DuplicateKey

definition findById :: "customer list \<Rightarrow> nat \<Rightarrow> customer option" where
  "findById db i = find (\<lambda>c. ident c = i) db"

text \<open>\<open>Customer.findOne({ email })\<close>: the filter value is cast with the path's setter.\<close>

definition findOneByEmail :: "customer list \<Rightarrow> string \<Rightarrow> customer option" where
  "findOneByEmail db e = find (\<lambda>c. email c = toLowerCase e) db"

text \<open>The identity the storage gives a new document: one no stored document has.\<close>

definition newIdent :: "customer list \<Rightarrow> nat" where
  "newIdent db = Suc (foldr max (map ident db) 0)"

text \<open>
  \<open>Customer.create(data)\<close>: setters, validation, the unique index on \<open>email\<close> (error
  code 11000), and both timestamps set to the time of the write.
\<close>

definition createDocument ::
    "(string \<Rightarrow> bool) \<Rightarrow> int \<Rightarrow> customer list \<Rightarrow> customer \<Rightarrow> storeError + customer list \<times> customer" where
  "createDocument emailMatch now db customerData =
     (let doc = customerData
            \<lparr> ident := newIdent db,
              customerName := trim (customerName customerData),
              email := toLowerCase (email customerData),
              phone := trim (phone customerData),
              createdAt := now, updatedAt := now \<rparr>
      in if \<not> validateCustomer emailMatch doc then Inl ValidationError
         else if list_ex (\<lambda>d. email d = email doc) db then Inl DuplicateKey
         else Inr (db @ [doc], doc))"

text \<open>
  \<open>customer.save()\<close> of a document read as \<open>old\<close> and now holding \<open>new\<close>: validation,
  nothing written when no path was modified, the unique index when the email was,
  and \<open>updatedAt\<close> set to the time of the write.
\<close>

definition saveDocument ::
    "(string \<Rightarrow> bool) \<Rightarrow> int \<Rightarrow> customer list \<Rightarrow> customer \<Rightarrow> customer
       \<Rightarrow> storeError + customer list \<times> customer" where
  "saveDocument emailMatch now db old new =
     (if \<not> validateCustomer emailMatch new then Inl ValidationError
      else if new = old then Inr (db, new)
      else if email new \<noteq> email old
              \<and> list_ex (\<lambda>d. ident d \<noteq> ident new \<and> email d = email new) db
      then Inl DuplicateKey
      else let stored = new \<lparr> updatedAt := now \<rparr>
           in Inr (map (\<lambda>d. if ident d = ident stored then stored else d) db, stored))"

section \<open>The customer handlers that write\<close>

text \<open>
  A JSON response: the HTTP status, the \<open>success\<close> flag, the \<open>message\<close>, and the
  document under \<open>data\<close>, if any. Each handler returns its response and the collection
  it leaves.
\<close>

record response =
  httpStatus :: nat
  success :: bool
  message :: string
  payload :: "customer option"

definition failure :: "nat \<Rightarrow> string \<Rightarrow> response" where
  "failure st msg = \<lparr> httpStatus = st, success = False, message = msg, payload = None \<rparr>"

definition truthy :: "string option \<Rightarrow> bool" where
  "truthy v = (case v of Some s \<Rightarrow> s \<noteq> [] | None \<Rightarrow> False)"

text \<open>
  \<open>createCustomer\<close>: the required-fields check, the lookup of the email, then
  \<open>Customer.create\<close> with the handler's defaults; a duplicate-key error is answered
  400 and any other error 500.
\<close>

definition createCustomer ::
    "(string \<Rightarrow> bool) \<Rightarrow> int \<Rightarrow> customer list \<Rightarrow> customerBody \<Rightarrow> response \<times> customer list" where
  "createCustomer emailMatch now db body =
     (case (b_customerName body, b_email body, b_phone body) of
        (Some name, Some mail, Some tel) \<Rightarrow>
          if name = [] \<or> mail = [] \<or> tel = []
          then (failure 400 ''Customer name, email, and phone are required'', db)
          else (case findOneByEmail db mail of
                  Some existingCustomer \<Rightarrow>
                    (failure 400 ''Customer with this email already exists'', db)
                | None \<Rightarrow>
                    (let customerData =
                           \<lparr> ident = 0, customerName = name, email = mail, phone = tel,
                             ordersCount = (case b_ordersCount body of Some n \<Rightarrow> n | None \<Rightarrow> 0),
                             orderTotal = (case b_orderTotal body of Some x \<Rightarrow> x | None \<Rightarrow> 0),
                             customerSince =
                               (case b_customerSince body of
                                  Some t \<Rightarrow> if t = 0 then now else t
                                | None \<Rightarrow> now),
                             status =
                               (case b_status body of
                                  Some st \<Rightarrow> if st = [] then ''active'' else st
                                | None \<Rightarrow> ''active''),
                             abandonedCarts =
                               (case b_abandonedCarts body of Some n \<Rightarrow> n | None \<Rightarrow> 0),
                             createdAt = now, updatedAt = now \<rparr>
                     in case createDocument emailMatch now db customerData of
                          Inr (db', doc) \<Rightarrow>
                            (\<lparr> httpStatus = 201, success = True,
                               message = ''Customer created successfully'',
                               payload = Some doc \<rparr>, db')
                        | Inl DuplicateKey \<Rightarrow>
                            (failure 400 ''Customer with this email already exists'', db)
                        | Inl _ \<Rightarrow> (failure 500 ''Error creating customer'', db)))
      | _ \<Rightarrow> (failure 400 ''Customer name, email, and phone are required'', db))"

text \<open>The assignments of \<open>updateCustomer\<close> after the email check, in the source's order.\<close>

definition assignFields :: "customerBody \<Rightarrow> customer \<Rightarrow> customer" where
  "assignFields body customer =
     (let c1 = (case b_customerName body of
                  Some v \<Rightarrow> if v \<noteq> [] then customer \<lparr> customerName := trim v \<rparr> else customer
                | None \<Rightarrow> customer);
          c2 = (case b_phone body of
                  Some v \<Rightarrow> if v \<noteq> [] then c1 \<lparr> phone := trim v \<rparr> else c1
                | None \<Rightarrow> c1);
          c3 = (case b_ordersCount body of Some v \<Rightarrow> c2 \<lparr> ordersCount := v \<rparr> | None \<Rightarrow> c2);
          c4 = (case b_orderTotal body of Some v \<Rightarrow> c3 \<lparr> orderTotal := v \<rparr> | None \<Rightarrow> c3);
          c5 = (case b_customerSince body of
                  Some v \<Rightarrow> if v \<noteq> 0 then c4 \<lparr> customerSince := v \<rparr> else c4
                | None \<Rightarrow> c4);
          c6 = (case b_status body of
                  Some v \<Rightarrow> if v \<noteq> [] then c5 \<lparr> status := v \<rparr> else c5
                | None \<Rightarrow> c5)
      in (case b_abandonedCarts body of Some v \<Rightarrow> c6 \<lparr> abandonedCarts := v \<rparr> | None \<Rightarrow> c6))"

text \<open>\<open>customer.save()\<close> and the response of \<open>updateCustomer\<close>, with its \<open>catch\<close> block.\<close>

definition saveUpdated ::
    "(string \<Rightarrow> bool) \<Rightarrow> int \<Rightarrow> customer list \<Rightarrow> customer \<Rightarrow> customer
       \<Rightarrow> response \<times> customer list" where
  "saveUpdated emailMatch now db old new =
     (case saveDocument emailMatch now db old new of
        Inr (db', updatedCustomer) \<Rightarrow>
          (\<lparr> httpStatus = 200, success = True, message = ''Customer updated successfully'',
             payload = Some updatedCustomer \<rparr>, db')
      | Inl DuplicateKey \<Rightarrow> (failure 400 ''Email already exists'', db)
      | Inl _ \<Rightarrow> (failure 500 ''Error updating customer'', db))"

text \<open>
  \<open>updateCustomer\<close>: the lookup by identity, the check of an email that is given and
  differs from the stored one, the assignments and the save.
\<close>

definition updateCustomer ::
    "(string \<Rightarrow> bool) \<Rightarrow> int \<Rightarrow> customer list \<Rightarrow> nat option \<Rightarrow> customerBody
       \<Rightarrow> response \<times> customer list" where
  "updateCustomer emailMatch now db idParam body =
     (case idParam of
        None \<Rightarrow> (failure 500 ''Error updating customer'', db)
      | Some i \<Rightarrow>
        (case findById db i of
           None \<Rightarrow> (failure 404 ''Customer not found'', db)
         | Some customer \<Rightarrow>
             if truthy (b_email body) \<and> b_email body \<noteq> Some (email customer)
             then (case findOneByEmail db (case b_email body of Some e \<Rightarrow> e | None \<Rightarrow> []) of
                     Some existingCustomer \<Rightarrow>
                       (failure 400 ''Another customer with this email already exists'', db)
                   | None \<Rightarrow>
                       saveUpdated emailMatch now db customer
                         (assignFields body
                            (customer \<lparr> email :=
                               toLowerCase (case b_email body of Some e \<Rightarrow> e | None \<Rightarrow> []) \<rparr>)))
             else saveUpdated emailMatch now db customer (assignFields body customer)))"

text \<open>
  \<open>updateCustomerStatus\<close>: the check of the status value comes before the lookup; every
  error of the save is answered 500.
\<close>

definition updateCustomerStatus ::
    "(string \<Rightarrow> bool) \<Rightarrow> int \<Rightarrow> customer list \<Rightarrow> nat option \<Rightarrow> string option
       \<Rightarrow> response \<times> customer list" where
  "updateCustomerStatus emailMatch now db idParam statusIn =
     (if \<not> truthy statusIn \<or> (statusIn \<noteq> Some ''active'' \<and> statusIn \<noteq> Some ''inactive'')
      then (failure 400 ''Valid status (active or inactive) is required'', db)
      else (case idParam of
              None \<Rightarrow> (failure 500 ''Error updating customer status'', db)
            | Some i \<Rightarrow>
              (case findById db i of
                 None \<Rightarrow> (failure 404 ''Customer not found'', db)
               | Some customer \<Rightarrow>
                   (case saveDocument emailMatch now db customer
                           (customer \<lparr> status := (case statusIn of Some s \<Rightarrow> s | None \<Rightarrow> []) \<rparr>) of
                      Inr (db', updatedCustomer) \<Rightarrow>
                        (\<lparr> httpStatus = 200, success = True,
                           message = ''Customer status updated successfully'',
                           payload = Some updatedCustomer \<rparr>, db')
                    | Inl _ \<Rightarrow> (failure 500 ''Error updating customer status'', db)))))"

text \<open>\<open>deleteCustomer\<close>: the lookup, and \<open>findByIdAndDelete\<close> when a record is found.\<close>

definition deleteCustomer :: "customer list \<Rightarrow> nat option \<Rightarrow> response \<times> customer list" where
  "deleteCustomer db idParam =
     (case idParam of
        None \<Rightarrow> (failure 500 ''Error deleting customer'', db)
      | Some i \<Rightarrow>
        (case findById db i of
           None \<Rightarrow> (failure 404 ''Customer not found'', db)
         | Some customer \<Rightarrow>
             (\<lparr> httpStatus = 200, success = True, message = ''Customer deleted successfully'',
                payload = None \<rparr>,
              filter (\<lambda>d. ident d \<noteq> i) db)))"

section \<open>The Order model\<close>

text \<open>
  An Order document as \<open>new Order(data)\<close> holds it: a path that was not given and has no
  default is \<open>None\<close> (\<open>undefined\<close>). The optional paths customerEmail, customerPhone and
  shippingAddress take no part in what follows and are left out.
\<close>

record orderDoc =
  o_customerName :: "string option"
  orderDate :: "int option"
  orderType :: "string option"
  trackingId :: "string option"
  o_orderTotal :: "rat option"
  action :: "string option"
  o_status :: "string option"
  description :: "string option"

text \<open>The setters of the \<open>trackingId\<close> path: \<open>trim: true\<close> and \<open>uppercase: true\<close>.\<close>

definition castTrackingId :: "string \<Rightarrow> string" where
  "castTrackingId s = toUpperCase (trim s)"

text \<open>
  \<open>new Order(data)\<close> at the clock value \<open>now\<close>: the setters of the given paths, and the
  defaults of the schema for the paths that were not given.
\<close>

definition newOrder :: "int \<Rightarrow> orderDoc \<Rightarrow> orderDoc" where
  "newOrder now given =
     given
       \<lparr> o_customerName := map_option trim (o_customerName given),
         orderDate := (case orderDate given of None \<Rightarrow> Some now | Some t \<Rightarrow> Some t),
         orderType := (case orderType given of None \<Rightarrow> Some ''online'' | Some t \<Rightarrow> Some t),
         trackingId := map_option castTrackingId (trackingId given),
         action := (case action given of None \<Rightarrow> Some ''pending'' | Some a \<Rightarrow> Some a),
         o_status := (case o_status given of None \<Rightarrow> Some ''active'' | Some s \<Rightarrow> Some s),
         description := map_option trim (description given) \<rparr>"

text \<open>The validators of the order schema: \<open>required\<close>, \<open>maxlength\<close>, \<open>enum\<close>, \<open>min\<close>.\<close>

definition requiredString :: "string option \<Rightarrow> bool" where
  "requiredString v = (case v of Some s \<Rightarrow> s \<noteq> [] | None \<Rightarrow> False)"

definition validateOrder :: "orderDoc \<Rightarrow> bool" where
  "validateOrder doc \<longleftrightarrow>
     requiredString (o_customerName doc)
     \<and> (case o_customerName doc of Some n \<Rightarrow> length n \<le> 100 | None \<Rightarrow> True)
     \<and> orderDate doc \<noteq> None
     \<and> (case orderType doc of
           Some t \<Rightarrow> t \<in> set [''online'', ''offline'', ''phone'', ''email''] | None \<Rightarrow> False)
     \<and> requiredString (trackingId doc)
     \<and> (case o_orderTotal doc of Some x \<Rightarrow> 0 \<le> x | None \<Rightarrow> False)
     \<and> (case action doc of
           Some a \<Rightarrow> a \<in> set [''pending'', ''processing'', ''shipped'', ''delivered'',
                              ''cancelled'', ''returned'']
         | None \<Rightarrow> False)
     \<and> (case o_status doc of
           Some s \<Rightarrow> s \<in> set [''active'', ''inactive'', ''completed''] | None \<Rightarrow> False)
     \<and> (case description doc of Some d \<Rightarrow> length d \<le> 500 | None \<Rightarrow> True)"

text \<open>
  The \<open>pre('save')\<close> hook. \<open>now\<close> is \<open>Date.now()\<close>, a non-negative integer, and
  \<open>randomText\<close> is the text of \<open>Math.random().toString(36)\<close>; \<open>substr(2, 5)\<close> keeps at
  most five characters after the first two. The assignment goes through the path's
  setters.
\<close>

definition generatedTrackingId :: "int \<Rightarrow> string \<Rightarrow> string" where
  "generatedTrackingId now randomText =
     toUpperCase (''ORD-'' @ digitsOf 36 now @ ''-'' @ take 5 (drop 2 randomText))"

definition preSave :: "int \<Rightarrow> string \<Rightarrow> orderDoc \<Rightarrow> orderDoc" where
  "preSave now randomText this =
     (if \<not> truthy (trackingId this)
      then this \<lparr> trackingId := Some (castTrackingId (generatedTrackingId now randomText)) \<rparr>
      else this)"

text \<open>
  \<open>order.save()\<close> of a new document. Mongoose validates in a pre-save step of its own
  that runs before the hooks a schema declares with \<open>pre('save')\<close>; a document that
  fails validation is rejected there, before the hook above runs. A document that
  passes goes through the hook and is inserted under the unique index on
  \<open>trackingId\<close>.
\<close>

definition saveOrder ::
    "int \<Rightarrow> string \<Rightarrow> orderDoc list \<Rightarrow> orderDoc \<Rightarrow> storeError + orderDoc list \<times> orderDoc" where
  "saveOrder now randomText db given =
     (let doc = newOrder now given
      in if \<not> validateOrder doc then Inl ValidationError
         else let doc' = preSave now randomText doc
              in if list_ex (\<lambda>d. trackingId d = trackingId doc') db then Inl DuplicateKey
                 else Inr (db @ [doc'], doc'))"

section \<open>Example documents\<close>

text \<open>The two customers of the model file's comment, and a collection holding both.\<close>

definition johnDoe :: customer where
  "johnDoe =
     \<lparr> ident = 1, customerName = ''John Doe'', email = ''john.doe@example.com'',
       phone = ''+1234567890'', ordersCount = 5, orderTotal = 2501 / 2,
       customerSince = 1705276800000, status = ''active'', abandonedCarts = 2,
       createdAt = 1705276800000, updatedAt = 1705276800000 \<rparr>"

definition janeSmith :: customer where
  "janeSmith =
     \<lparr> ident = 2, customerName = ''Jane Smith'', email = ''jane.smith@example.com'',
       phone = ''9876543210'', ordersCount = 0, orderTotal = 0,
       customerSince = 1711500000000, status = ''inactive'', abandonedCarts = 0,
       createdAt = 1711500000000, updatedAt = 1711500000000 \<rparr>"

definition exampleDb :: "customer list" where
  "exampleDb = [johnDoe, janeSmith]"

text \<open>A request body with no field.\<close>

definition emptyBody :: customerBody where
  "emptyBody =
     \<lparr> b_customerName = None, b_email = None, b_phone = None, b_ordersCount = None,
       b_orderTotal = None, b_customerSince = None, b_status = None,
       b_abandonedCarts = None \<rparr>"

text \<open>The minimal order of the model file's comment, and the same without its trackingId.\<close>

definition janeOrder :: orderDoc where
  "janeOrder =
     \<lparr> o_customerName = Some ''Jane Smith'', orderDate = None, orderType = None,
       trackingId = Some ''ORD-123456'', o_orderTotal = Some 250, action = None,
       o_status = None, description = None \<rparr>"

text \<open>A clock value: 2024-03-31T12:00:00Z.\<close>

definition exampleNow :: int where
  "exampleNow = 1711886400000"

text \<open>
  Two hosts: one on UTC, and one in America/New_York with the changes of its offset in
  2023 and 2024 (UTC-5, and daylight saving time at UTC-4 from 2023-03-12T07:00Z to
  2023-11-05T06:00Z and from 2024-03-10T07:00Z to 2024-11-03T06:00Z).
\<close>

definition utcZone :: zone where
  "utcZone = \<lparr> baseOffset = 0, transitions = [] \<rparr>"

definition newYork :: zone where
  "newYork =
     \<lparr> baseOffset = - 18000000,
       transitions =
         [(1678604400000, - 14400000), (1699164000000, - 18000000),
          (1710054000000, - 14400000), (1730613600000, - 18000000)] \<rparr>"

section \<open>Properties of the percentage change\<close>

text \<open>
  C1 (as the code has it): when previous = 0 and current = 0 the rendered change is
  \<open>+0%\<close>: \<open>calculateChange\<close> returns the number 0, and the template puts a plus sign
  before every value that is \<open>>= 0\<close>.
\<close>

theorem change_zero_zero: "changeString 0 0 = ''+0%''"
  by (simp add: changeString_def renderChange_def calculateChange_def geZero_def
      toStringJs_def digitsOf.simps digitChar_def)

text \<open>C1 as stated fails: the rendered string for (0, 0) is not \<open>0%\<close>.\<close>

theorem change_zero_zero_not_bare: "changeString 0 0 \<noteq> ''0%''"
  by (simp add: changeString_def renderChange_def calculateChange_def geZero_def
      toStringJs_def digitsOf.simps digitChar_def)

subsection \<open>The values of the specification's examples\<close>

lemma up_value: "percentChange 75 50 = 50"
  unfolding percentChange_def of_nat_numeral by code_simp

lemma up_fixed: "toFixed 50 2 = ''50.00''"
  by code_simp

lemma up_ge: "geZero (JStr ''50.00'')"
  by code_simp

lemma change_example_up: "changeString 75 50 = ''+50.00%''"
  by (simp add: changeString_def calculateChange_def renderChange_def toStringJs_def
      up_value up_fixed up_ge)

lemma down_value: "percentChange 40 80 = - 50"
  unfolding percentChange_def of_nat_numeral by code_simp

lemma down_fixed: "toFixed (- 50) 2 = ''-50.00''"
  by code_simp

lemma down_ge: "\<not> geZero (JStr ''-50.00'')"
  by code_simp

lemma change_example_down: "changeString 40 80 = ''-50.00%''"
  by (simp add: changeString_def calculateChange_def renderChange_def toStringJs_def
      down_value down_fixed down_ge)

lemma digits_100: "digitsOf 10 100 = ''100''"
  by (simp add: digitsOf.simps [of 10 100] digitsOf.simps [of 10 10]
      digitsOf.simps [of 10 1] digitChar_def)

lemma change_from_zero: "0 < current \<Longrightarrow> changeString current 0 = ''+100%''"
  by (simp add: changeString_def renderChange_def calculateChange_def geZero_def
      toStringJs_def digits_100)

subsection \<open>The sign test on the text of \<open>toFixed\<close>\<close>

lemma digitChar_decimal:
  assumes "d < 10"
  shows "isDigit (digitChar d)" and "(of_char (digitChar d) :: int) - 48 = int d"
proof -
  from assms have d: "d = 0 \<or> d = 1 \<or> d = 2 \<or> d = 3 \<or> d = 4 \<or> d = 5 \<or> d = 6
      \<or> d = 7 \<or> d = 8 \<or> d = 9" by arith
  from d show "isDigit (digitChar d)"
    by (elim disjE) (simp_all add: digitChar_def isDigit_def)
  from d show "(of_char (digitChar d) :: int) - 48 = int d"
    by (elim disjE) (simp_all add: digitChar_def)
qed

lemma digitsValue_append: "digitsValue (xs @ ys) acc = digitsValue ys (digitsValue xs acc)"
  by (induction xs arbitrary: acc) simp_all

lemma digitsValue_shift: "digitsValue xs acc = acc * 10 ^ length xs + digitsValue xs 0"
proof (induction xs arbitrary: acc)
  case Nil
  show ?case by simp
next
  case (Cons c cs)
  have "digitsValue (c # cs) acc = (10 * acc + (of_char c - 48)) * 10 ^ length cs + digitsValue cs 0"
    using Cons.IH [of "10 * acc + (of_char c - 48)"] by simp
  moreover have "digitsValue (c # cs) 0 = (of_char c - 48) * 10 ^ length cs + digitsValue cs 0"
    using Cons.IH [of "of_char c - 48"] by simp
  ultimately show ?case by (simp add: algebra_simps)
qed

lemma isDigit_int: "isDigit c \<Longrightarrow> (48::int) \<le> of_char c"
proof -
  assume "isDigit c"
  then have "int 48 \<le> int (of_char c)" unfolding isDigit_def by linarith
  then show ?thesis by (simp only: of_nat_of_char of_nat_numeral)
qed

lemma digitsValue_nonneg: "list_all isDigit xs \<Longrightarrow> 0 \<le> acc \<Longrightarrow> 0 \<le> digitsValue xs acc"
proof (induction xs arbitrary: acc)
  case Nil
  then show ?case by simp
next
  case (Cons c cs)
  have "(48::int) \<le> of_char c" using Cons.prems(1) by (simp add: isDigit_int)
  then have "0 \<le> 10 * acc + (of_char c - 48)" using Cons.prems(2) by simp
  then show ?case using Cons.IH Cons.prems(1) by simp
qed

lemma digitsOf_decimal:
  "0 \<le> n \<Longrightarrow>
     digitsValue (digitsOf 10 n) 0 = n \<and> list_all isDigit (digitsOf 10 n) \<and> digitsOf 10 n \<noteq> []"
proof (induction "10 :: int" n rule: digitsOf.induct)
  case (1 n)
  show ?case
  proof (cases "n < 10")
    case True
    then have "nat n < 10" using "1.prems" by simp
    from digitChar_decimal [OF this] show ?thesis
      using True "1.prems" by (simp add: digitsOf.simps [of 10 n])
  next
    case False
    have q: "0 \<le> n div 10" using "1.prems" by simp
    have r: "nat (n mod 10) < 10" by simp
    have ih: "digitsValue (digitsOf 10 (n div 10)) 0 = n div 10"
      "list_all isDigit (digitsOf 10 (n div 10))"
      using "1.hyps" False q by simp_all
    have m: "int (nat (n mod 10)) = n mod 10" by simp
    show ?thesis
      using False ih digitChar_decimal [OF r] m
      by (simp add: digitsOf.simps [of 10 n] digitsValue_append)
  qed
qed

lemma digitsValue_zeros: "digitsValue (replicate k CHR ''0'') 0 = 0"
  by (induction k) simp_all

lemma isDigit_not_point: "isDigit c \<Longrightarrow> c \<noteq> CHR ''.'' \<and> c \<noteq> CHR ''-''"
  by (auto simp: isDigit_def)

lemma unsignedLiteral_point:
  assumes "list_all isDigit a" and "a \<noteq> []" and "list_all isDigit b" and "b \<noteq> []"
  shows "unsignedLiteral (a @ ''.'' @ b)
     = Some (of_int (digitsValue a 0) + of_int (digitsValue b 0) / 10 ^ length b)"
proof -
  have na: "\<forall>c \<in> set a. c \<noteq> CHR ''.''"
    using assms(1) isDigit_not_point by (auto simp: list_all_iff)
  have t: "takeWhile (\<lambda>c. c \<noteq> CHR ''.'') (a @ ''.'' @ b) = a"
    using na by (simp add: takeWhile_append2)
  have d: "dropWhile (\<lambda>c. c \<noteq> CHR ''.'') (a @ ''.'' @ b) = ''.'' @ b"
    using na by (simp add: dropWhile_append2)
  show ?thesis
    unfolding unsignedLiteral_def t d using assms by (simp add: Let_def)
qed

lemma toFixed_2:
  "toFixed x 2
     = (if x < 0 then ''-'' @ fixedDigits \<lfloor>- x * 100 + 1 / 2\<rfloor> 2
        else fixedDigits \<lfloor>x * 100 + 1 / 2\<rfloor> 2)"
  by (simp add: toFixed_def Let_def)

lemma fixedDigits_parts:
  assumes "0 \<le> n"
  shows "\<exists>a b. fixedDigits n 2 = a @ ''.'' @ b \<and> list_all isDigit a \<and> a \<noteq> [] \<and> list_all isDigit b
           \<and> length b = 2 \<and> digitsValue a 0 * 100 + digitsValue b 0 = n"
proof -
  define m where "m = (if n = 0 then ''0'' else digitsOf 10 n)"
  define m' where "m' = (if length m \<le> 2 then replicate (2 + 1 - length m) CHR ''0'' @ m else m)"
  have m: "digitsValue m 0 = n" "list_all isDigit m" "m \<noteq> []"
    using digitsOf_decimal [OF assms] by (auto simp: m_def isDigit_def)
  have z: "list_all isDigit (replicate k CHR ''0'')" for k
    by (simp add: list_all_iff isDigit_def)
  have m': "digitsValue m' 0 = n" "list_all isDigit m'" "3 \<le> length m'"
    using m z by (auto simp: m'_def digitsValue_append digitsValue_zeros)
  define a where "a = take (length m' - 2) m'"
  define b where "b = drop (length m' - 2) m'"
  have ab: "a @ b = m'" by (simp add: a_def b_def)
  have lb: "length b = 2" using m'(3) by (simp add: b_def)
  have la: "a \<noteq> []" using m'(3) by (auto simp: a_def)
  have da: "list_all isDigit a" and db: "list_all isDigit b"
    using m'(2) unfolding ab [symmetric] by simp_all
  have "digitsValue (a @ b) 0 = digitsValue a 0 * 10 ^ length b + digitsValue b 0"
    unfolding digitsValue_append by (rule digitsValue_shift)
  then have v: "digitsValue a 0 * 100 + digitsValue b 0 = n"
    using m'(1) by (simp add: ab lb)
  have "fixedDigits n 2 = a @ ''.'' @ b"
    by (simp add: fixedDigits_def Let_def m_def [symmetric] m'_def [symmetric] a_def b_def)
  then show ?thesis using da la db lb v by blast
qed

lemma fixedDigits_number:
  assumes "0 \<le> n"
  shows "unsignedLiteral (fixedDigits n 2) = Some (of_int n / 100)"
    and "\<exists>c cs. fixedDigits n 2 = c # cs \<and> c \<noteq> CHR ''-''"
proof -
  obtain a b where p: "fixedDigits n 2 = a @ ''.'' @ b" "list_all isDigit a" "a \<noteq> []"
    "list_all isDigit b" "length b = 2" "digitsValue a 0 * 100 + digitsValue b 0 = n"
    using fixedDigits_parts [OF assms] by blast
  have "b \<noteq> []" using p(5) by auto
  from unsignedLiteral_point [OF p(2,3,4) this]
  have "unsignedLiteral (fixedDigits n 2)
      = Some (of_int (digitsValue a 0) + of_int (digitsValue b 0) / 100)"
    by (simp add: p(1,5))
  also have "of_int (digitsValue a 0) + of_int (digitsValue b 0) / (100::rat)
      = of_int (digitsValue a 0 * 100 + digitsValue b 0) / 100"
    by simp
  finally show "unsignedLiteral (fixedDigits n 2) = Some (of_int n / 100)"
    by (simp only: p(6))
  obtain c cs where a: "a = c # cs" using p(3) by (cases a) auto
  then have "isDigit c" using p(2) by simp
  then have "c \<noteq> CHR ''-''" using isDigit_not_point by blast
  then show "\<exists>c cs. fixedDigits n 2 = c # cs \<and> c \<noteq> CHR ''-''"
    using p(1) a by simp
qed

text \<open>
  \<open>x.toFixed(2) >= 0\<close> holds exactly when \<open>x > -0.005\<close>: for a negative \<open>x\<close> that rounds
  to zero the text is \<open>-0.00\<close>, which converts to -0.
\<close>

lemma geZero_toFixed: "geZero (JStr (toFixed x 2)) \<longleftrightarrow> - (1 / 200) < x"
proof (cases "x < 0")
  case False
  define n where "n = \<lfloor>x * 100 + 1 / 2\<rfloor>"
  have n: "0 \<le> n" using False by (simp add: n_def)
  obtain c cs where f: "fixedDigits n 2 = c # cs" "c \<noteq> CHR ''-''"
    using fixedDigits_number(2) [OF n] by blast
  have "stringToNumber (fixedDigits n 2) = Some (of_int n / 100)"
    using fixedDigits_number(1) [OF n] f by (simp add: stringToNumber_def)
  moreover have "toFixed x 2 = fixedDigits n 2"
    using False unfolding toFixed_2 n_def by simp
  ultimately show ?thesis
    using False n by (simp add: geZero_def)
next
  case True
  define n where "n = \<lfloor>- x * 100 + 1 / 2\<rfloor>"
  have n: "0 \<le> n" using True by (simp add: n_def)
  have "stringToNumber (''-'' @ fixedDigits n 2) = Some (- (of_int n / 100))"
    using fixedDigits_number(1) [OF n] by (simp add: stringToNumber_def)
  moreover have "toFixed x 2 = ''-'' @ fixedDigits n 2"
    using True unfolding toFixed_2 n_def by simp
  ultimately have g: "geZero (JStr (toFixed x 2)) \<longleftrightarrow> n = 0"
    using n by (simp add: geZero_def)
  have "n = 0 \<longleftrightarrow> - x * 100 + 1 / 2 < 1"
    using n unfolding n_def by (simp add: floor_eq_iff)
  also have "\<dots> \<longleftrightarrow> - (1 / 200) < x" by linarith
  finally show ?thesis using g by simp
qed

text \<open>
  For every pair with a previous count above zero, the change string is the text of
  \<open>toFixed(2)\<close> of the change and the percent sign, after a plus sign exactly when the
  change is above -0.005.
\<close>

theorem change_string_from_previous:
  "0 < previous \<Longrightarrow>
     changeString current previous
       = (if - (1 / 200) < percentChange current previous then ''+'' else '''')
         @ toFixed (percentChange current previous) 2 @ ''%''"
  by (simp add: changeString_def calculateChange_def renderChange_def toStringJs_def
      geZero_toFixed)

theorem change_string_from_previous_witness:
  "(0::nat) < 50 \<and> percentChange 75 50 = 50 \<and> changeString 75 50 = ''+'' @ toFixed 50 2 @ ''%''"
  using change_string_from_previous [of 50 75] up_value by simp

subsection \<open>A small negative change\<close>

lemma tiny_value:
  "percentChange 20000 20001 = - (5764319307068881 / 1152921504606846976)"
  unfolding percentChange_def of_nat_numeral by code_simp

lemma tiny_fixed: "toFixed (- (5764319307068881 / 1152921504606846976)) 2 = ''-0.00''"
  by code_simp

lemma tiny_ge: "geZero (JStr ''-0.00'')"
  by code_simp

text \<open>
  C2 at the input current = 20000, previous = 20001: the change is about -0.005 percent,
  \<open>toFixed(2)\<close> renders it as \<open>-0.00\<close>, the comparison \<open>'-0.00' >= 0\<close> converts that
  string to the number -0, which is \<open>>= 0\<close>, and the template puts a plus sign before
  the minus sign.
\<close>

theorem change_tiny_negative: "changeString 20000 20001 = ''+-0.00%''"
  by (simp add: changeString_def calculateChange_def renderChange_def toStringJs_def
      tiny_value tiny_fixed tiny_ge)

section \<open>Properties of the summary\<close>

subsection \<open>Going back by days\<close>

lemma MonthFromTime_range: "0 \<le> MonthFromTime t \<and> MonthFromTime t \<le> 11"
  by (simp add: MonthFromTime_def Let_def)

lemma MakeDay_own_month:
  "MakeDay (YearFromTime t) (MonthFromTime t) (DateFromTime t - n) = Day t - n"
proof -
  have r: "0 \<le> MonthFromTime t" "MonthFromTime t \<le> 11"
    using MonthFromTime_range by simp_all
  have d: "MonthFromTime t div 12 = 0" using r by simp
  have m: "MonthFromTime t mod 12 = MonthFromTime t" using r by simp
  show ?thesis
    by (simp add: MakeDay_def Let_def d m DateFromTime_def DayWithinYear_def InLeapYear_def)
qed

text \<open>
  \<open>d.setDate(d.getDate() - n)\<close> is the instant of the local date and time \<open>n\<close> days
  before those of \<open>d\<close>.
\<close>

lemma setDate_back: "setDate z t (getDate z t - n) = UTC z (LocalTime z t - n * msPerDay)"
proof -
  have "MakeDate (Day (LocalTime z t) - n) (TimeWithinDay (LocalTime z t))
      = LocalTime z t - n * msPerDay"
    by (simp add: MakeDate_def Day_def TimeWithinDay_def algebra_simps)
  then show ?thesis
    by (simp add: setDate_def getDate_def Let_def MakeDay_own_month)
qed

text \<open>In a zone whose offset never changes, local time is UTC shifted by the offset.\<close>

lemma fixed_zone:
  assumes "transitions z = []"
  shows "LocalTime z t = t + baseOffset z" and "UTC z t = t - baseOffset z"
  using assms by (simp_all add: LocalTime_def UTC_def)

lemma fixed_zone_back:
  assumes "transitions z = []"
  shows "UTC z (LocalTime z t - k) = t - k"
  by (simp add: fixed_zone [OF assms])

lemma days_back:
  shows "Day (t - n * msPerDay) = Day t - n"
    and "TimeWithinDay (t - n * msPerDay) = TimeWithinDay t"
proof -
  have q: "t = msPerDay * (t div msPerDay) + t mod msPerDay" by simp
  have e: "t - n * msPerDay = msPerDay * (t div msPerDay - n) + t mod msPerDay"
    by (subst (1) q) (simp only: right_diff_distrib mult.commute [of n msPerDay], simp)
  have lo: "0 \<le> t mod msPerDay" and hi: "t mod msPerDay < msPerDay"
    by (simp_all add: msPerDay_def)
  show "Day (t - n * msPerDay) = Day t - n"
    unfolding Day_def by (rule int_div_pos_eq [OF e lo hi])
  show "TimeWithinDay (t - n * msPerDay) = TimeWithinDay t"
    unfolding TimeWithinDay_def by (rule int_mod_pos_eq [OF e lo hi])
qed


subsection \<open>The previous period\<close>




lemma week_start: "startDate z today ''week'' = UTC z (LocalTime z today - 7 * msPerDay)"
  by (simp add: startDate_def toLowerCase_def lowerChar_def setDate_back)

lemma week_start_fixed:
  "transitions z = [] \<Longrightarrow> startDate z today ''week'' = today - 7 * msPerDay"
  by (simp add: week_start fixed_zone_back)

lemma example_new: "newCustomers (exampleNow - 7 * msPerDay) exampleDb = 1"
  by (simp add: newCustomers_def countDocuments_def exampleDb_def johnDoe_def janeSmith_def
      exampleNow_def msPerDay_def)

text \<open>
  The local readings and instants of the New York host at the clock values
  2024-03-13T16:00:00Z and 2024-03-20T16:00:00Z (noon, daylight saving time).
\<close>

lemma newYork_local:
  "LocalTime newYork 1710345600000 = 1710331200000"
  "LocalTime newYork 1710950400000 = 1710936000000"
  "LocalTime newYork 1709744400000 = 1709726400000"
  "UTC newYork 1709726400000 = 1709744400000"
  "UTC newYork 1710331200000 = 1710345600000"
  "UTC newYork 1709208000000 = 1709226000000"
  by (simp_all add: LocalTime_def UTC_def newYork_def)


subsection \<open>The year of a time value\<close>

lemma DaysInYear_bounds: "365 \<le> DaysInYear y \<and> DaysInYear y \<le> 366"
  by (simp add: DaysInYear_def)

lemma DayFromYear_1970: "DayFromYear 1970 = 0"
  by (simp add: DayFromYear_def)

lemma DayFromYear_after: "0 \<le> k \<Longrightarrow> DayFromYear (1970 + k) \<le> 366 * k"
proof (induction k rule: int_ge_induct)
  case base
  show ?case by (simp add: DayFromYear_1970)
next
  case (step i)
  have "DayFromYear (1970 + (i + 1)) = DayFromYear (1970 + i) + DaysInYear (1970 + i)"
    using DayFromYear_next [of "1970 + i"] by (simp add: add.assoc)
  moreover have "DaysInYear (1970 + i) \<le> 366" using DaysInYear_bounds by blast
  moreover have "366 * (i + 1) = 366 * i + 366" by simp
  ultimately show ?case using step.IH by simp
qed

lemma DayFromYear_before: "k \<le> 0 \<Longrightarrow> DayFromYear (1970 + k) \<le> 365 * k"
proof (induction k rule: int_le_induct)
  case base
  show ?case by (simp add: DayFromYear_1970)
next
  case (step i)
  have "DayFromYear (1970 + (i - 1) + 1) = DayFromYear (1970 + (i - 1)) + DaysInYear (1970 + (i - 1))"
    by (rule DayFromYear_next)
  moreover have "1970 + (i - 1) + 1 = 1970 + i" by simp
  ultimately have "DayFromYear (1970 + i) = DayFromYear (1970 + (i - 1)) + DaysInYear (1970 + (i - 1))"
    by simp
  moreover have "365 \<le> DaysInYear (1970 + (i - 1))" using DaysInYear_bounds by blast
  moreover have "365 * (i - 1) = 365 * i - 365" by simp
  ultimately show ?case using step.IH by simp
qed

lemma year_estimate: "DayFromYear (1970 + (if 0 \<le> d then d div 366 else d div 365)) \<le> d"
proof (cases "0 \<le> d")
  case True
  then have "0 \<le> d div 366" by simp
  from DayFromYear_after [OF this] have "DayFromYear (1970 + d div 366) \<le> 366 * (d div 366)" .
  also have "\<dots> \<le> d" by (simp add: algebra_simps)
  finally show ?thesis using True by simp
next
  case False
  then have "d div 365 < 0" by (intro div_neg_pos_less0) simp_all
  then have "d div 365 \<le> 0" by simp
  from DayFromYear_before [OF this] have "DayFromYear (1970 + d div 365) \<le> 365 * (d div 365)" .
  also have "\<dots> \<le> d" by (simp add: algebra_simps)
  finally show ?thesis using False by simp
qed

lemma yearSearch_bounds:
  "DayFromYear y \<le> d \<Longrightarrow>
     DayFromYear (yearSearch y d) \<le> d \<and> d < DayFromYear (yearSearch y d + 1)"
proof (induction y d rule: yearSearch.induct)
  case (1 y d)
  show ?case
  proof (cases "DayFromYear (y + 1) \<le> d")
    case True
    then show ?thesis using "1.IH" by (simp add: yearSearch.simps [of y d])
  next
    case False
    then show ?thesis using "1.prems" by (simp add: yearSearch.simps [of y d])
  qed
qed

text \<open>
  \<open>YearFromTime t\<close> is the year whose first day is not after the day of \<open>t\<close> while
  the first day of the next year is: the largest \<open>y\<close> with \<open>TimeFromYear(y) \<le> t\<close>.
\<close>

lemma YearFromTime_bounds:
  "DayFromYear (YearFromTime t) \<le> Day t \<and> Day t < DayFromYear (YearFromTime t + 1)"
  unfolding YearFromTime_def Let_def by (rule yearSearch_bounds) (rule year_estimate)

lemma DayFromYear_mono: "y \<le> z \<Longrightarrow> DayFromYear y \<le> DayFromYear z"
proof (induction z rule: int_ge_induct)
  case base
  show ?case by simp
next
  case (step i)
  then show ?case using DayFromYear_less [of i] by linarith
qed

lemma YearFromTime_unique:
  assumes "DayFromYear y \<le> Day t" and "Day t < DayFromYear (y + 1)"
  shows "YearFromTime t = y"
proof (rule ccontr)
  assume n: "YearFromTime t \<noteq> y"
  note b = YearFromTime_bounds [of t]
  show False
  proof (cases "YearFromTime t < y")
    case True
    then have "DayFromYear (YearFromTime t + 1) \<le> DayFromYear y"
      by (intro DayFromYear_mono) simp
    then show False using b assms by linarith
  next
    case False
    then have "y + 1 \<le> YearFromTime t" using n by simp
    then have "DayFromYear (y + 1) \<le> DayFromYear (YearFromTime t)" by (rule DayFromYear_mono)
    then show False using b assms by linarith
  qed
qed

subsection \<open>The calendar fields of a date built from fields\<close>

lemma Day_MakeDate:
  assumes "0 \<le> tod" and "tod < msPerDay"
  shows "Day (MakeDate day tod) = day" and "TimeWithinDay (MakeDate day tod) = tod"
proof -
  have e: "MakeDate day tod = msPerDay * day + tod" by (simp add: MakeDate_def)
  show "Day (MakeDate day tod) = day"
    unfolding Day_def by (rule int_div_pos_eq [OF e assms])
  show "TimeWithinDay (MakeDate day tod) = tod"
    unfolding TimeWithinDay_def by (rule int_mod_pos_eq [OF e assms])
qed

lemma TimeWithinDay_range: "0 \<le> TimeWithinDay t \<and> TimeWithinDay t < msPerDay"
  by (simp add: TimeWithinDay_def msPerDay_def)

lemma month_cases:
  assumes "0 \<le> m" and "m \<le> 11"
  shows "m = 0 \<or> m = 1 \<or> m = 2 \<or> m = 3 \<or> m = 4 \<or> m = 5 \<or> m = 6 \<or> m = 7 \<or> m = 8
         \<or> m = 9 \<or> m = 10 \<or> m = (11::int)"
  using assms by arith

text \<open>
  A date built from a year, a month from 0 to 11, a day from 1 to 28 and a time of day
  has these fields.
\<close>

lemma fields_of_made_date:
  fixes y m d tod :: int
  assumes m: "0 \<le> m" "m \<le> 11" and d: "1 \<le> d" "d \<le> 28"
    and tod: "0 \<le> tod" "tod < msPerDay"
  defines "t \<equiv> MakeDate (MakeDay y m d) tod"
  shows "YearFromTime t = y" and "MonthFromTime t = m" and "DateFromTime t = d"
    and "TimeWithinDay t = tod"
proof -
  define leap :: int where "leap = (if DaysInYear y = 366 then 1 else 0)"
  have l: "leap = 0 \<or> leap = 1" by (simp add: leap_def)
  have md: "m div 12 = 0" "m mod 12 = m" using m by simp_all
  have day: "Day t = DayFromYear y + monthStart leap m + d - 1"
    unfolding t_def Day_MakeDate(1) [OF tod] by (simp add: MakeDay_def Let_def md leap_def)
  have len: "DaysInYear y = 365 + leap"
    using DaysInYear_bounds [of y] by (auto simp: leap_def DaysInYear_def)
  have ms: "0 \<le> monthStart leap m" "monthStart leap m + 28 \<le> 365 + leap"
    using month_cases [OF m] l by (auto simp: monthStart_def)
  have "DayFromYear y \<le> Day t" using day ms(1) d by simp
  moreover have "Day t < DayFromYear (y + 1)"
    using day ms(2) d by (simp add: DayFromYear_next len)
  ultimately show yr: "YearFromTime t = y" by (rule YearFromTime_unique)
  have il: "InLeapYear t = leap" by (simp add: InLeapYear_def yr leap_def)
  have dw: "DayWithinYear t = monthStart leap m + d - 1"
    by (simp add: DayWithinYear_def yr day)
  show mo: "MonthFromTime t = m"
    using month_cases [OF m] l d
    by (elim disjE) (simp_all add: MonthFromTime_def Let_def il dw monthStart_def)
  show "DateFromTime t = d"
    by (simp add: DateFromTime_def il dw mo)
  show "TimeWithinDay t = tod"
    unfolding t_def by (rule Day_MakeDate(2) [OF tod])
qed

text \<open>The day of the month of any time value is at least 1.\<close>

lemma DateFromTime_positive: "1 \<le> DateFromTime t"
proof -
  have "0 \<le> DayWithinYear t"
    using YearFromTime_bounds [of t] by (simp add: DayWithinYear_def)
  moreover have "InLeapYear t = 0 \<or> InLeapYear t = 1" by (simp add: InLeapYear_def)
  ultimately show ?thesis
    by (auto simp: DateFromTime_def MonthFromTime_def monthStart_def Let_def)
qed

lemma MakeDay_carry: "MakeDay y m d = MakeDay (y + m div 12) (m mod 12) d"
  by (simp add: MakeDay_def Let_def)

text \<open>
  The date with the fields of \<open>t\<close> and its month lowered by one, as \<open>setMonth\<close> builds
  it, for a day of the month from 1 to 28: the same day and time of day in the month
  before, December of the year before when \<open>t\<close> is in January.
\<close>

lemma month_back:
  assumes "DateFromTime t \<le> 28"
  defines "s \<equiv> MakeDate (MakeDay (YearFromTime t) (MonthFromTime t - 1) (DateFromTime t))
                  (TimeWithinDay t)"
  shows "YearFromTime s = (if MonthFromTime t = 0 then YearFromTime t - 1 else YearFromTime t)"
    and "MonthFromTime s = (if MonthFromTime t = 0 then 11 else MonthFromTime t - 1)"
    and "DateFromTime s = DateFromTime t"
    and "TimeWithinDay s = TimeWithinDay t"
proof -
  define Y where "Y = YearFromTime t"
  define M where "M = MonthFromTime t"
  define D where "D = DateFromTime t"
  define Y' where "Y' = (if M = 0 then Y - 1 else Y)"
  define M' where "M' = (if M = 0 then 11 else M - 1)"
  have M: "0 \<le> M" "M \<le> 11" using MonthFromTime_range [of t] by (simp_all add: M_def)
  have D: "1 \<le> D" "D \<le> 28"
    using DateFromTime_positive [of t] assms(1) by (simp_all add: D_def)
  have c: "Y + (M - 1) div 12 = Y'" "(M - 1) mod 12 = M'"
    using M by (auto simp: Y'_def M'_def)
  have M': "0 \<le> M'" "M' \<le> 11" using M by (auto simp: M'_def)
  have ls: "s = MakeDate (MakeDay Y' M' D) (TimeWithinDay t)"
    unfolding s_def
    by (simp add: Y_def [symmetric] M_def [symmetric] D_def [symmetric]
        MakeDay_carry [of Y "M - 1" D] c)
  note tod = TimeWithinDay_range [of t, THEN conjunct1] TimeWithinDay_range [of t, THEN conjunct2]
  note f = fields_of_made_date [OF M' D tod, of Y']
  show "YearFromTime s = (if MonthFromTime t = 0 then YearFromTime t - 1 else YearFromTime t)"
    using f(1) by (simp add: ls Y_def [symmetric] M_def [symmetric] Y'_def)
  show "MonthFromTime s = (if MonthFromTime t = 0 then 11 else MonthFromTime t - 1)"
    using f(2) by (simp add: ls M_def [symmetric] M'_def)
  show "DateFromTime s = DateFromTime t"
    using f(3) by (simp add: ls D_def [symmetric])
  show "TimeWithinDay s = TimeWithinDay t"
    using f(4) by (simp add: ls)
qed

text \<open>
  The date with the fields of \<open>t\<close> and its year lowered by one, as \<open>setFullYear\<close>
  builds it, for a day of the month from 1 to 28: the same month, day and time of day
  in the year before.
\<close>

lemma year_back:
  assumes "DateFromTime t \<le> 28"
  defines "s \<equiv> MakeDate (MakeDay (YearFromTime t - 1) (MonthFromTime t) (DateFromTime t))
                  (TimeWithinDay t)"
  shows "YearFromTime s = YearFromTime t - 1"
    and "MonthFromTime s = MonthFromTime t"
    and "DateFromTime s = DateFromTime t"
    and "TimeWithinDay s = TimeWithinDay t"
proof -
  have M: "0 \<le> MonthFromTime t" "MonthFromTime t \<le> 11"
    using MonthFromTime_range [of t] by simp_all
  have D: "1 \<le> DateFromTime t" "DateFromTime t \<le> 28"
    using DateFromTime_positive [of t] assms(1) by simp_all
  note tod = TimeWithinDay_range [of t, THEN conjunct1] TimeWithinDay_range [of t, THEN conjunct2]
  note f = fields_of_made_date [OF M D tod, of "YearFromTime t - 1"]
  show "YearFromTime s = YearFromTime t - 1" unfolding s_def by (rule f(1))
  show "MonthFromTime s = MonthFromTime t" unfolding s_def by (rule f(2))
  show "DateFromTime s = DateFromTime t" unfolding s_def by (rule f(3))
  show "TimeWithinDay s = TimeWithinDay t" unfolding s_def by (rule f(4))
qed

subsection \<open>The timeframe\<close>

lemma startDate_cases:
  "startDate z today s =
     (let lt = LocalTime z today
      in if toLowerCase s = ''month''
         then UTC z (MakeDate (MakeDay (YearFromTime lt) (MonthFromTime lt - 1) (DateFromTime lt))
                       (TimeWithinDay lt))
         else if toLowerCase s = ''year''
         then UTC z (MakeDate (MakeDay (YearFromTime lt - 1) (MonthFromTime lt) (DateFromTime lt))
                       (TimeWithinDay lt))
         else UTC z (lt - 7 * msPerDay))"
  by (simp add: startDate_def Let_def setDate_back setMonth_def setFullYear_def getMonth_def
      getFullYear_def)

text \<open>
  C4 (as the code has it): the timeframe is compared after \<open>toLowerCase\<close>. With the
  local date and time of the clock value on the host, an absent parameter, and every
  string that is neither \<open>month\<close> nor \<open>year\<close> in lower case, gives as period start the
  instant of the local date and time 7 days earlier: the local day 7 days before, at
  the same time of day. A string that is \<open>month\<close> in lower case gives the instant of
  the local date and time that \<open>setMonth(getMonth() - 1)\<close> builds; when the local day of
  the month is at most 28 that is the same day of the month and time of day in the
  calendar month before. A string that is \<open>year\<close> in lower case gives the instant of
  the local date and time that \<open>setFullYear(getFullYear() - 1)\<close> builds; when the local
  day of the month is at most 28 that is the same month, day of the month and time of
  day in the calendar year before. On a host whose offset from UTC never changes, the
  7-day lookback is 7 times 86400000 ms and the period start has the local date and
  time it was built from.
\<close>

theorem timeframe_lookback:
  "(let lt = LocalTime z today;
        weekLocal = lt - 7 * msPerDay;
        monthLocal = MakeDate (MakeDay (YearFromTime lt) (MonthFromTime lt - 1) (DateFromTime lt))
                       (TimeWithinDay lt);
        yearLocal = MakeDate (MakeDay (YearFromTime lt - 1) (MonthFromTime lt) (DateFromTime lt))
                      (TimeWithinDay lt)
    in startDate z today (timeframeOr QAbsent) = UTC z weekLocal
       \<and> startDate z today (timeframeOr (QString s))
           = (if toLowerCase s = ''month'' then UTC z monthLocal
              else if toLowerCase s = ''year'' then UTC z yearLocal
              else UTC z weekLocal)
       \<and> Day weekLocal = Day lt - 7 \<and> TimeWithinDay weekLocal = TimeWithinDay lt
       \<and> (DateFromTime lt \<le> 28 \<longrightarrow>
            YearFromTime monthLocal
              = (if MonthFromTime lt = 0 then YearFromTime lt - 1 else YearFromTime lt)
            \<and> MonthFromTime monthLocal = (if MonthFromTime lt = 0 then 11 else MonthFromTime lt - 1)
            \<and> DateFromTime monthLocal = DateFromTime lt
            \<and> TimeWithinDay monthLocal = TimeWithinDay lt
            \<and> YearFromTime yearLocal = YearFromTime lt - 1
            \<and> MonthFromTime yearLocal = MonthFromTime lt
            \<and> DateFromTime yearLocal = DateFromTime lt
            \<and> TimeWithinDay yearLocal = TimeWithinDay lt)
       \<and> (transitions z = [] \<longrightarrow>
            UTC z weekLocal = today - 7 * msPerDay
            \<and> LocalTime z (UTC z monthLocal) = monthLocal
            \<and> LocalTime z (UTC z yearLocal) = yearLocal))"
proof -
  define lt where "lt = LocalTime z today"
  define weekLocal where "weekLocal = lt - 7 * msPerDay"
  define monthLocal where
    "monthLocal = MakeDate (MakeDay (YearFromTime lt) (MonthFromTime lt - 1) (DateFromTime lt))
                    (TimeWithinDay lt)"
  define yearLocal where
    "yearLocal = MakeDate (MakeDay (YearFromTime lt - 1) (MonthFromTime lt) (DateFromTime lt))
                   (TimeWithinDay lt)"
  have e: "startDate z today (timeframeOr (QString s))
           = (if toLowerCase s = ''month'' then UTC z monthLocal
              else if toLowerCase s = ''year'' then UTC z yearLocal
              else UTC z weekLocal)"
    by (simp add: timeframeOr_def startDate_cases [of z today s] Let_def lt_def weekLocal_def
        monthLocal_def yearLocal_def)
  have a: "startDate z today (timeframeOr QAbsent) = UTC z weekLocal"
    by (simp add: timeframeOr_def week_start weekLocal_def lt_def)
  have w: "Day weekLocal = Day lt - 7" "TimeWithinDay weekLocal = TimeWithinDay lt"
    unfolding weekLocal_def by (rule days_back(1), rule days_back(2))
  have m: "YearFromTime monthLocal
              = (if MonthFromTime lt = 0 then YearFromTime lt - 1 else YearFromTime lt)
            \<and> MonthFromTime monthLocal = (if MonthFromTime lt = 0 then 11 else MonthFromTime lt - 1)
            \<and> DateFromTime monthLocal = DateFromTime lt
            \<and> TimeWithinDay monthLocal = TimeWithinDay lt"
    if "DateFromTime lt \<le> 28"
    unfolding monthLocal_def by (intro conjI month_back [OF that])
  have y: "YearFromTime yearLocal = YearFromTime lt - 1
            \<and> MonthFromTime yearLocal = MonthFromTime lt
            \<and> DateFromTime yearLocal = DateFromTime lt
            \<and> TimeWithinDay yearLocal = TimeWithinDay lt"
    if "DateFromTime lt \<le> 28"
    unfolding yearLocal_def by (intro conjI year_back [OF that])
  have f: "UTC z weekLocal = today - 7 * msPerDay
            \<and> LocalTime z (UTC z monthLocal) = monthLocal
            \<and> LocalTime z (UTC z yearLocal) = yearLocal"
    if "transitions z = []"
    by (simp add: fixed_zone [OF that] weekLocal_def lt_def)
  show ?thesis
    unfolding Let_def lt_def [symmetric] weekLocal_def [symmetric] monthLocal_def [symmetric]
      yearLocal_def [symmetric]
    using e a w m y f by blast
qed

text \<open>
  On the New York host at the clock value 2024-03-13T16:00:00Z, noon of 13 March in
  daylight saving time: the week starts at noon of 6 March, 2024-03-06T17:00:00Z; a
  month back is noon of 13 February, 2024-02-13T17:00:00Z; a year back is noon of
  13 March 2023, 2023-03-13T16:00:00Z. On the UTC host the week lookback is 7 times
  86400000 ms.
\<close>

theorem timeframe_lookback_witness:
  "toLowerCase ''Month'' = ''month'' \<and> toLowerCase ''YEAR'' = ''year''
   \<and> DateFromTime (LocalTime newYork 1710345600000) = 13
   \<and> MonthFromTime (LocalTime newYork 1710345600000) = 2
   \<and> YearFromTime (LocalTime newYork 1710345600000) = 2024
   \<and> startDate newYork 1710345600000 (timeframeOr QAbsent) = 1709744400000
   \<and> startDate newYork 1710345600000 (timeframeOr (QString ''weekly'')) = 1709744400000
   \<and> startDate newYork 1710345600000 (timeframeOr (QString ''Month'')) = 1707843600000
   \<and> YearFromTime (LocalTime newYork 1707843600000) = 2024
   \<and> MonthFromTime (LocalTime newYork 1707843600000) = 1
   \<and> DateFromTime (LocalTime newYork 1707843600000) = 13
   \<and> startDate newYork 1710345600000 (timeframeOr (QString ''YEAR'')) = 1678723200000
   \<and> YearFromTime (LocalTime newYork 1678723200000) = 2023
   \<and> MonthFromTime (LocalTime newYork 1678723200000) = 2
   \<and> DateFromTime (LocalTime newYork 1678723200000) = 13
   \<and> transitions utcZone = []
   \<and> startDate utcZone exampleNow (timeframeOr QAbsent) = exampleNow - 7 * msPerDay"
proof -
  let ?T = "1710345600000 :: int"
  let ?L = "1710331200000 :: int"
  have lt: "LocalTime newYork ?T = ?L" by (rule newYork_local)
  have l: "toLowerCase ''Month'' = ''month''" "toLowerCase ''YEAR'' = ''year''"
    "toLowerCase ''weekly'' = ''weekly''"
    by code_simp+
  have n: "''weekly'' \<noteq> ''month''" "''weekly'' \<noteq> ''year''" "''year'' \<noteq> ''month''" by simp_all
  have f: "DateFromTime ?L = 13" "MonthFromTime ?L = 2" "YearFromTime ?L = 2024"
    "TimeWithinDay ?L = 43200000"
    by code_simp+
  have mk: "MakeDate (MakeDay 2024 1 13) 43200000 = 1707825600000"
    "MakeDate (MakeDay 2023 2 13) 43200000 = 1678708800000"
    by code_simp+
  have u: "UTC newYork (?L - 7 * msPerDay) = 1709744400000"
    "UTC newYork 1707825600000 = 1707843600000"
    "UTC newYork 1678708800000 = 1678723200000"
    by (simp_all add: UTC_def newYork_def msPerDay_def)
  have b: "LocalTime newYork 1707843600000 = 1707825600000"
    "LocalTime newYork 1678723200000 = 1678708800000"
    by (simp_all add: LocalTime_def newYork_def)
  have d: "DateFromTime ?L \<le> 28" by (simp add: f)
  have z: "transitions utcZone = []" by (simp add: utcZone_def)
  have a: "startDate newYork ?T (timeframeOr QAbsent) = 1709744400000
      \<and> startDate newYork ?T (timeframeOr (QString ''Month'')) = 1707843600000
      \<and> YearFromTime 1707825600000 = 2024 \<and> MonthFromTime 1707825600000 = 1
      \<and> DateFromTime 1707825600000 = 13
      \<and> YearFromTime 1678708800000 = 2023 \<and> MonthFromTime 1678708800000 = 2
      \<and> DateFromTime 1678708800000 = 13"
    using timeframe_lookback [of newYork ?T "''Month''"] d
    unfolding Let_def lt f by (simp add: l mk u)
  have y: "startDate newYork ?T (timeframeOr (QString ''YEAR'')) = 1678723200000"
    using timeframe_lookback [of newYork ?T "''YEAR''"]
    unfolding Let_def lt f by (simp add: l mk u)
  have w: "startDate newYork ?T (timeframeOr (QString ''weekly'')) = 1709744400000"
    using timeframe_lookback [of newYork ?T "''weekly''"]
    unfolding Let_def lt f by (simp add: l n mk u)
  have c: "startDate utcZone exampleNow (timeframeOr QAbsent) = exampleNow - 7 * msPerDay"
    using timeframe_lookback [of utcZone exampleNow "''week''"] z
    unfolding Let_def by simp
  show ?thesis using l f lt a y w c z b by simp
qed

text \<open>
  C4 as stated fails: \<open>MONTH\<close> is a timeframe value other than \<open>week\<close>, \<open>month\<close> and
  \<open>year\<close>, and on the UTC host at the clock value 2024-03-31T12:00:00Z the period
  starts on 2024-03-02T12:00:00Z, not at the start of the week lookback, 7 days before
  the clock value.
\<close>

theorem uppercase_month_not_week:
  "startDate utcZone exampleNow (timeframeOr (QString ''MONTH'')) = 1709380800000
   \<and> startDate utcZone exampleNow (timeframeOr (QString ''week'')) = 1711281600000
   \<and> startDate utcZone exampleNow (timeframeOr (QString ''MONTH''))
       \<noteq> startDate utcZone exampleNow (timeframeOr (QString ''week''))"
  by code_simp

text \<open>A timeframe that is not a string: \<open>toLowerCase\<close> throws and the answer is 500.\<close>

lemma structured_timeframe: "getCustomerSummary z today QStructured db = Summary500"
  by (simp add: getCustomerSummary_def)

subsection \<open>The metrics without a change\<close>

lemma summary_fixed_metrics:
  assumes "getCustomerSummary z today q db = Summary200 tf m"
  shows "m_abandonedCarts m
           = \<lparr> mvalue = abandonedCartsValue (aggregateAbandonedCarts db), change = None \<rparr>"
    and "m_purchasingCustomers m = \<lparr> mvalue = int (purchasingCustomers db), change = None \<rparr>"
    and "m_allCustomers m = \<lparr> mvalue = int (allCustomers db),
           change = Some (changeString (allCustomers db)
                      (prevAllCustomers (startDate z today (timeframeOr q)) db)) \<rparr>"
    and "m_activeCustomers m = \<lparr> mvalue = int (activeCustomers db),
           change = Some (changeString (activeCustomers db)
                      (prevActiveCustomers (startDate z today (timeframeOr q)) db)) \<rparr>"
    and "m_inactiveCustomers m = \<lparr> mvalue = int (inactiveCustomers db),
           change = Some (changeString (inactiveCustomers db)
                      (prevInactiveCustomers (startDate z today (timeframeOr q)) db)) \<rparr>"
  using assms by (cases q; auto simp: getCustomerSummary_def Let_def)+

lemma abandonedCartsValue_sum:
  "abandonedCartsValue (aggregateAbandonedCarts db) = sum_list (map abandonedCarts db)"
  by (cases db) (simp_all add: abandonedCartsValue_def aggregateAbandonedCarts_def)

text \<open>
  C5: in every 200 response of the summary, the value of the abandonedCarts metric is
  the sum of the \<open>abandonedCarts\<close> field over all customers of the collection, 0 for
  the empty collection, and the change of the purchasingCustomers and abandonedCarts
  metrics is \<open>null\<close>.
\<close>

theorem abandoned_carts_metric:
  "getCustomerSummary z today q db = Summary200 tf m \<Longrightarrow>
     mvalue (m_abandonedCarts m) = sum_list (map abandonedCarts db)
     \<and> (db = [] \<longrightarrow> mvalue (m_abandonedCarts m) = 0)
     \<and> change (m_abandonedCarts m) = None
     \<and> change (m_purchasingCustomers m) = None"
  by (simp add: summary_fixed_metrics(1,2) abandonedCartsValue_sum)

theorem abandoned_carts_metric_witness:
  "\<exists>tf m. getCustomerSummary utcZone exampleNow (QString ''year'') exampleDb = Summary200 tf m
     \<and> mvalue (m_abandonedCarts m) = 2
     \<and> change (m_abandonedCarts m) = None
     \<and> change (m_purchasingCustomers m) = None"
proof -
  obtain tf m where
    h: "getCustomerSummary utcZone exampleNow (QString ''year'') exampleDb = Summary200 tf m"
    by (simp add: getCustomerSummary_def Let_def)
  have "sum_list (map abandonedCarts exampleDb) = 2"
    by (simp add: exampleDb_def johnDoe_def janeSmith_def)
  with abandoned_carts_metric [OF h] h show ?thesis by simp
qed

subsection \<open>The status counts\<close>

lemma count_partition:
  assumes "\<forall>x \<in> set xs. p x \<longrightarrow> (a x \<or> b x)"
    and "\<forall>x \<in> set xs. a x \<longrightarrow> p x \<and> \<not> b x"
    and "\<forall>x \<in> set xs. b x \<longrightarrow> p x"
  shows "length (filter p xs) = length (filter a xs) + length (filter b xs)"
  using assms by (induction xs) auto

text \<open>
  C10: over a collection in which the status of every customer is \<open>active\<close> or
  \<open>inactive\<close>, every 200 response has allCustomers = activeCustomers +
  inactiveCustomers, and the three previous-period counts the handler computes for its
  period start satisfy prevAllCustomers = prevActiveCustomers + prevInactiveCustomers.
\<close>

theorem status_counts_add_up:
  assumes "\<forall>c \<in> set db. status c = ''active'' \<or> status c = ''inactive''"
    and "getCustomerSummary z today q db = Summary200 tf m"
  shows "mvalue (m_allCustomers m) = mvalue (m_activeCustomers m) + mvalue (m_inactiveCustomers m)
     \<and> prevAllCustomers (startDate z today (timeframeOr q)) db
         = prevActiveCustomers (startDate z today (timeframeOr q)) db
           + prevInactiveCustomers (startDate z today (timeframeOr q)) db"
proof -
  have cur: "allCustomers db = activeCustomers db + inactiveCustomers db"
    unfolding allCustomers_def activeCustomers_def inactiveCustomers_def countDocuments_def
    by (rule count_partition) (use assms(1) in auto)
  have prev: "prevAllCustomers s db = prevActiveCustomers s db + prevInactiveCustomers s db"
    for s
    unfolding prevAllCustomers_def prevActiveCustomers_def prevInactiveCustomers_def
      countDocuments_def
    by (rule count_partition) (use assms(1) in auto)
  show ?thesis
    using cur prev by (simp add: summary_fixed_metrics(3,4,5) [OF assms(2)])
qed

theorem status_counts_add_up_witness:
  "list_all (\<lambda>c. status c = ''active'' \<or> status c = ''inactive'') exampleDb
   \<and> (\<exists>tf m. getCustomerSummary utcZone exampleNow QAbsent exampleDb = Summary200 tf m
        \<and> mvalue (m_allCustomers m) = 2 \<and> mvalue (m_activeCustomers m) = 1
        \<and> mvalue (m_inactiveCustomers m) = 1)
   \<and> prevAllCustomers (exampleNow - 7 * msPerDay) exampleDb = 1
   \<and> prevActiveCustomers (exampleNow - 7 * msPerDay) exampleDb = 1
   \<and> prevInactiveCustomers (exampleNow - 7 * msPerDay) exampleDb = 0"
proof -
  have s: "\<forall>c \<in> set exampleDb. status c = ''active'' \<or> status c = ''inactive''"
    by (simp add: exampleDb_def johnDoe_def janeSmith_def)
  obtain tf m where h: "getCustomerSummary utcZone exampleNow QAbsent exampleDb = Summary200 tf m"
    by (simp add: getCustomerSummary_def Let_def)
  have a: "mvalue (m_activeCustomers m) = 1" "mvalue (m_inactiveCustomers m) = 1"
    by (simp_all add: summary_fixed_metrics(4,5) [OF h] activeCustomers_def
        inactiveCustomers_def countDocuments_def exampleDb_def johnDoe_def janeSmith_def)
  have p: "prevActiveCustomers (exampleNow - 7 * msPerDay) exampleDb = 1"
    "prevInactiveCustomers (exampleNow - 7 * msPerDay) exampleDb = 0"
    by (simp_all add: prevActiveCustomers_def prevInactiveCustomers_def countDocuments_def
        exampleDb_def johnDoe_def janeSmith_def exampleNow_def msPerDay_def)
  have w: "startDate utcZone exampleNow (timeframeOr QAbsent) = exampleNow - 7 * msPerDay"
    by (simp add: timeframeOr_def week_start_fixed utcZone_def)
  from status_counts_add_up [OF s h] s h a p show ?thesis
    by (simp add: w list_all_iff)
qed

section \<open>Properties of the handlers that write\<close>

lemma find_member: "d \<in> set xs \<Longrightarrow> p d \<Longrightarrow> \<exists>x. find p xs = Some x"
  by (cases "find p xs") (auto simp: find_None_iff)

subsection \<open>createCustomer on an email that is taken\<close>

text \<open>
  C6 (as the code has it): for every creation request whose email, in the lower case
  the schema stores, is the email of a customer in the collection, the response is a
  400 failure and the collection is unchanged; the response is the conflict response
  when customerName, email and phone are all present and non-empty, and the
  required-fields response otherwise (that check comes first).
\<close>

theorem create_duplicate_email:
  assumes "b_email body = Some e" and "d \<in> set db" and "email d = toLowerCase e"
  shows "createCustomer emailMatch now db body
      = (if truthy (b_customerName body) \<and> e \<noteq> [] \<and> truthy (b_phone body)
         then failure 400 ''Customer with this email already exists''
         else failure 400 ''Customer name, email, and phone are required'', db)"
proof -
  obtain x where x: "findOneByEmail db e = Some x"
    unfolding findOneByEmail_def using find_member [OF assms(2), of "\<lambda>c. email c = toLowerCase e"]
      assms(3) by auto
  show ?thesis
    using assms(1) x
    by (auto simp: createCustomer_def truthy_def split: option.splits)
qed

theorem create_duplicate_email_witness:
  "johnDoe \<in> set exampleDb
   \<and> email johnDoe = toLowerCase ''john.doe@example.com''
   \<and> createCustomer (\<lambda>e. True) exampleNow exampleDb
         (emptyBody \<lparr> b_customerName := Some ''Johnny'', b_email := Some ''john.doe@example.com'',
                      b_phone := Some ''5550100'' \<rparr>)
       = (failure 400 ''Customer with this email already exists'', exampleDb)"
proof -
  have m: "johnDoe \<in> set exampleDb" by (simp add: exampleDb_def)
  have l: "email johnDoe = toLowerCase ''john.doe@example.com''"
    by (simp add: johnDoe_def toLowerCase_def lowerChar_def)
  show ?thesis
    using m l create_duplicate_email [OF _ m l, of
        "emptyBody \<lparr> b_customerName := Some ''Johnny'', b_email := Some ''john.doe@example.com'',
                     b_phone := Some ''5550100'' \<rparr>" "\<lambda>e. True" exampleNow]
    by (simp add: emptyBody_def truthy_def)
qed

text \<open>
  C6 as stated fails: a request that carries only the email of John Doe, who is in the
  collection, is answered with the required-fields response, not the conflict response.
\<close>

theorem create_duplicate_email_only:
  "b_email (emptyBody \<lparr> b_email := Some ''john.doe@example.com'' \<rparr>) = Some (email johnDoe)
   \<and> johnDoe \<in> set exampleDb
   \<and> fst (createCustomer (\<lambda>e. True) exampleNow exampleDb
            (emptyBody \<lparr> b_email := Some ''john.doe@example.com'' \<rparr>))
       = failure 400 ''Customer name, email, and phone are required''
   \<and> fst (createCustomer (\<lambda>e. True) exampleNow exampleDb
            (emptyBody \<lparr> b_email := Some ''john.doe@example.com'' \<rparr>))
       \<noteq> failure 400 ''Customer with this email already exists''"
  by (simp add: createCustomer_def emptyBody_def johnDoe_def exampleDb_def failure_def)

subsection \<open>What a save leaves\<close>

lemma saveDocument_result:
  assumes "saveDocument emailMatch now db old new = Inr (db', u)"
  shows "(new = old \<and> u = old \<and> db' = db)
       \<or> (new \<noteq> old \<and> u = new \<lparr> updatedAt := now \<rparr>
            \<and> db' = map (\<lambda>d. if ident d = ident new then u else d) db)"
  using assms by (auto simp: saveDocument_def Let_def split: if_splits)

lemma saveUpdated_ok:
  assumes "saveUpdated emailMatch now db old new = (r, db')" and "httpStatus r = 200"
  shows "\<exists>u. payload r = Some u
       \<and> ((new = old \<and> u = old \<and> db' = db)
            \<or> (new \<noteq> old \<and> u = new \<lparr> updatedAt := now \<rparr>
                 \<and> db' = map (\<lambda>d. if ident d = ident new then u else d) db))"
proof (cases "saveDocument emailMatch now db old new")
  case (Inl e)
  then show ?thesis using assms by (cases e) (auto simp: saveUpdated_def failure_def)
next
  case (Inr p)
  obtain db2 u where p: "p = (db2, u)" by (cases p)
  have "payload r = Some u" "db' = db2"
    using assms(1) Inr p by (auto simp: saveUpdated_def)
  with saveDocument_result [OF Inr [unfolded p]] show ?thesis by auto
qed

lemma saveUpdated_failed:
  assumes "saveUpdated emailMatch now db old new = (r, db')" and "httpStatus r \<noteq> 200"
  shows "db' = db \<and> payload r = None"
proof (cases "saveDocument emailMatch now db old new")
  case (Inl e)
  then show ?thesis using assms by (cases e) (auto simp: saveUpdated_def failure_def)
next
  case (Inr p)
  then show ?thesis using assms by (cases p) (auto simp: saveUpdated_def)
qed

lemma assignFields_sel:
  "customerName (assignFields body x) =
     (case b_customerName body of
        Some v \<Rightarrow> if v \<noteq> [] then trim v else customerName x | None \<Rightarrow> customerName x)"
  "phone (assignFields body x) =
     (case b_phone body of Some v \<Rightarrow> if v \<noteq> [] then trim v else phone x | None \<Rightarrow> phone x)"
  "ordersCount (assignFields body x) =
     (case b_ordersCount body of Some v \<Rightarrow> v | None \<Rightarrow> ordersCount x)"
  "orderTotal (assignFields body x) =
     (case b_orderTotal body of Some v \<Rightarrow> v | None \<Rightarrow> orderTotal x)"
  "customerSince (assignFields body x) =
     (case b_customerSince body of
        Some v \<Rightarrow> if v \<noteq> 0 then v else customerSince x | None \<Rightarrow> customerSince x)"
  "status (assignFields body x) =
     (case b_status body of Some v \<Rightarrow> if v \<noteq> [] then v else status x | None \<Rightarrow> status x)"
  "abandonedCarts (assignFields body x) =
     (case b_abandonedCarts body of Some v \<Rightarrow> v | None \<Rightarrow> abandonedCarts x)"
  "email (assignFields body x) = email x"
  "ident (assignFields body x) = ident x"
  "createdAt (assignFields body x) = createdAt x"
  "updatedAt (assignFields body x) = updatedAt x"
  by (simp_all add: assignFields_def Let_def split: option.splits)

subsection \<open>updateCustomer\<close>

lemma updateCustomer_found:
  assumes "findById db i = Some c"
  shows "updateCustomer emailMatch now db (Some i) body =
     (case b_email body of
        Some e \<Rightarrow>
          if e \<noteq> [] \<and> e \<noteq> email c
          then (case findOneByEmail db e of
                  Some x \<Rightarrow> (failure 400 ''Another customer with this email already exists'', db)
                | None \<Rightarrow> saveUpdated emailMatch now db c
                            (assignFields body (c \<lparr> email := toLowerCase e \<rparr>)))
          else saveUpdated emailMatch now db c (assignFields body c)
      | None \<Rightarrow> saveUpdated emailMatch now db c (assignFields body c))"
  using assms by (auto simp: updateCustomer_def truthy_def split: option.splits)

lemma assignFields_differs:
  assumes "assignFields body x \<noteq> c" and "ident x = ident c" and "createdAt x = createdAt c"
    and "updatedAt x = updatedAt c"
  shows "assignFields body x \<lparr> updatedAt := t \<rparr> \<noteq> c"
proof
  assume e: "assignFields body x \<lparr> updatedAt := t \<rparr> = c"
  have "assignFields body x = (assignFields body x \<lparr> updatedAt := t \<rparr>) \<lparr> updatedAt := updatedAt c \<rparr>"
    using assms(4) by (simp add: assignFields_sel)
  also have "\<dots> = c" by (simp add: e)
  finally show False using assms(1) by simp
qed

text \<open>
  C7 (as the code has it): for every PUT request on an existing customer \<open>c\<close>,
  answered \<open>r\<close> and leaving the collection \<open>db'\<close>. When the answer is 200 it carries a
  record \<open>c'\<close> in which customerName, phone and status hold the request's value when it
  is present and not empty (name and phone trimmed), email holds the request's value
  in lower case when it is present, not empty and different from the stored one,
  customerSince holds the request's value when it is present and not 0, ordersCount,
  orderTotal and abandonedCarts hold the request's value when it is present, and every
  one of these fields otherwise keeps the value it had, as the identity and createdAt
  do; either nothing changed and the collection is as
  before, or updatedAt is the time of the save and \<open>c'\<close> replaces \<open>c\<close> in the collection.
  When the answer is not 200 the collection is unchanged. When the request's email is
  not empty, differs from the stored one and, in lower case, is the email of a
  customer in the collection, the answer is the 400 conflict response.
\<close>

theorem update_applies_present_fields:
  assumes "findById db i = Some c"
    and "updateCustomer emailMatch now db (Some i) body = (r, db')"
  shows "(httpStatus r = 200 \<longrightarrow>
           (\<exists>c'. payload r = Some c'
              \<and> customerName c' =
                  (case b_customerName body of
                     Some v \<Rightarrow> if v \<noteq> [] then trim v else customerName c
                   | None \<Rightarrow> customerName c)
              \<and> email c' =
                  (case b_email body of
                     Some v \<Rightarrow> if v \<noteq> [] \<and> v \<noteq> email c then toLowerCase v else email c
                   | None \<Rightarrow> email c)
              \<and> phone c' =
                  (case b_phone body of
                     Some v \<Rightarrow> if v \<noteq> [] then trim v else phone c | None \<Rightarrow> phone c)
              \<and> ordersCount c' = (case b_ordersCount body of Some v \<Rightarrow> v | None \<Rightarrow> ordersCount c)
              \<and> orderTotal c' = (case b_orderTotal body of Some v \<Rightarrow> v | None \<Rightarrow> orderTotal c)
              \<and> customerSince c' =
                  (case b_customerSince body of
                     Some v \<Rightarrow> if v \<noteq> 0 then v else customerSince c
                   | None \<Rightarrow> customerSince c)
              \<and> status c' =
                  (case b_status body of
                     Some v \<Rightarrow> if v \<noteq> [] then v else status c | None \<Rightarrow> status c)
              \<and> abandonedCarts c' =
                  (case b_abandonedCarts body of Some v \<Rightarrow> v | None \<Rightarrow> abandonedCarts c)
              \<and> ident c' = ident c \<and> createdAt c' = createdAt c
              \<and> ((c' = c \<and> db' = db)
                   \<or> (c' \<noteq> c \<and> updatedAt c' = now
                        \<and> db' = map (\<lambda>d. if ident d = ident c then c' else d) db))))
       \<and> (httpStatus r \<noteq> 200 \<longrightarrow> db' = db \<and> payload r = None)
       \<and> (\<forall>e d. b_email body = Some e \<and> e \<noteq> [] \<and> e \<noteq> email c \<and> d \<in> set db
                  \<and> email d = toLowerCase e \<longrightarrow>
              r = failure 400 ''Another customer with this email already exists'' \<and> db' = db)"
proof -
  let ?changing = "\<exists>e. b_email body = Some e \<and> e \<noteq> [] \<and> e \<noteq> email c"
  note u = assms(2) [unfolded updateCustomer_found [OF assms(1)]]
  have conflict: "r = failure 400 ''Another customer with this email already exists'' \<and> db' = db"
    if h1: "b_email body = Some e" and h2: "e \<noteq> []" and h3: "e \<noteq> email c"
      and h4: "d \<in> set db" and h5: "email d = toLowerCase e"
    for e d
  proof -
    obtain x where "findOneByEmail db e = Some x"
      unfolding findOneByEmail_def
      using find_member [OF h4, of "\<lambda>c. email c = toLowerCase e"] h5 by auto
    then show ?thesis using u h1 h2 h3 by simp
  qed
  have failed: "db' = db \<and> payload r = None" if "httpStatus r \<noteq> 200"
  proof (cases ?changing)
    case True
    then obtain e where e: "b_email body = Some e" "e \<noteq> []" "e \<noteq> email c" by blast
    show ?thesis
    proof (cases "findOneByEmail db e")
      case None
      then show ?thesis using u e that by (simp add: saveUpdated_failed)
    next
      case (Some x)
      then show ?thesis using u e by (auto simp: failure_def)
    qed
  next
    case False
    then have "saveUpdated emailMatch now db c (assignFields body c) = (r, db')"
      using u by (auto split: option.splits if_splits)
    then show ?thesis using that by (simp add: saveUpdated_failed)
  qed
  have ok: "\<exists>c'. payload r = Some c'
              \<and> customerName c' =
                  (case b_customerName body of
                     Some v \<Rightarrow> if v \<noteq> [] then trim v else customerName c
                   | None \<Rightarrow> customerName c)
              \<and> email c' =
                  (case b_email body of
                     Some v \<Rightarrow> if v \<noteq> [] \<and> v \<noteq> email c then toLowerCase v else email c
                   | None \<Rightarrow> email c)
              \<and> phone c' =
                  (case b_phone body of
                     Some v \<Rightarrow> if v \<noteq> [] then trim v else phone c | None \<Rightarrow> phone c)
              \<and> ordersCount c' = (case b_ordersCount body of Some v \<Rightarrow> v | None \<Rightarrow> ordersCount c)
              \<and> orderTotal c' = (case b_orderTotal body of Some v \<Rightarrow> v | None \<Rightarrow> orderTotal c)
              \<and> customerSince c' =
                  (case b_customerSince body of
                     Some v \<Rightarrow> if v \<noteq> 0 then v else customerSince c
                   | None \<Rightarrow> customerSince c)
              \<and> status c' =
                  (case b_status body of
                     Some v \<Rightarrow> if v \<noteq> [] then v else status c | None \<Rightarrow> status c)
              \<and> abandonedCarts c' =
                  (case b_abandonedCarts body of Some v \<Rightarrow> v | None \<Rightarrow> abandonedCarts c)
              \<and> ident c' = ident c \<and> createdAt c' = createdAt c
              \<and> ((c' = c \<and> db' = db)
                   \<or> (c' \<noteq> c \<and> updatedAt c' = now
                        \<and> db' = map (\<lambda>d. if ident d = ident c then c' else d) db))"
    if st: "httpStatus r = 200"
  proof -
    define x where "x = (case b_email body of
        Some e \<Rightarrow> if e \<noteq> [] \<and> e \<noteq> email c then c \<lparr> email := toLowerCase e \<rparr> else c
      | None \<Rightarrow> c)"
    have s: "saveUpdated emailMatch now db c (assignFields body x) = (r, db')"
    proof (cases ?changing)
      case True
      then obtain e where e: "b_email body = Some e" "e \<noteq> []" "e \<noteq> email c" by blast
      show ?thesis
      proof (cases "findOneByEmail db e")
        case None
        then show ?thesis using u e by (simp add: x_def)
      next
        case (Some y)
        then have "r = failure 400 ''Another customer with this email already exists''"
          using u e by simp
        then show ?thesis using st by (simp add: failure_def)
      qed
    next
      case False
      then show ?thesis using u by (auto simp: x_def split: option.splits if_splits)
    qed
    have xs: "ident x = ident c" "createdAt x = createdAt c" "updatedAt x = updatedAt c"
      "customerName x = customerName c" "phone x = phone c" "ordersCount x = ordersCount c"
      "orderTotal x = orderTotal c" "customerSince x = customerSince c" "status x = status c"
      "abandonedCarts x = abandonedCarts c"
      "email x = (case b_email body of
          Some v \<Rightarrow> if v \<noteq> [] \<and> v \<noteq> email c then toLowerCase v else email c
        | None \<Rightarrow> email c)"
      by (simp_all add: x_def split: option.splits)
    define y where "y = assignFields body x"
    have fl:
      "customerName y =
         (case b_customerName body of
            Some v \<Rightarrow> if v \<noteq> [] then trim v else customerName c
          | None \<Rightarrow> customerName c)"
      "email y =
         (case b_email body of
            Some v \<Rightarrow> if v \<noteq> [] \<and> v \<noteq> email c then toLowerCase v else email c
          | None \<Rightarrow> email c)"
      "phone y =
         (case b_phone body of
            Some v \<Rightarrow> if v \<noteq> [] then trim v else phone c | None \<Rightarrow> phone c)"
      "ordersCount y = (case b_ordersCount body of Some v \<Rightarrow> v | None \<Rightarrow> ordersCount c)"
      "orderTotal y = (case b_orderTotal body of Some v \<Rightarrow> v | None \<Rightarrow> orderTotal c)"
      "customerSince y =
         (case b_customerSince body of
            Some v \<Rightarrow> if v \<noteq> 0 then v else customerSince c | None \<Rightarrow> customerSince c)"
      "status y =
         (case b_status body of
            Some v \<Rightarrow> if v \<noteq> [] then v else status c | None \<Rightarrow> status c)"
      "abandonedCarts y =
         (case b_abandonedCarts body of Some v \<Rightarrow> v | None \<Rightarrow> abandonedCarts c)"
      "ident y = ident c" "createdAt y = createdAt c"
      by (simp_all add: y_def assignFields_sel xs split: option.splits)
    have yu: "updatedAt y = updatedAt c" by (simp add: y_def assignFields_sel xs)
    from saveUpdated_ok [OF s st] obtain w where
      p: "payload r = Some w" and
      w: "(y = c \<and> w = c \<and> db' = db)
          \<or> (y \<noteq> c \<and> w = y \<lparr> updatedAt := now \<rparr>
               \<and> db' = map (\<lambda>d. if ident d = ident y then w else d) db)"
      unfolding y_def by blast
    from w show ?thesis
    proof
      assume a: "y = c \<and> w = c \<and> db' = db"
      then have wy: "w = y" and wc: "w = c" and dd: "db' = db" by simp_all
      show ?thesis
        by (intro exI [of _ w] conjI disjI1 p wc dd) (simp_all only: wy fl)
    next
      assume a: "y \<noteq> c \<and> w = y \<lparr> updatedAt := now \<rparr>
          \<and> db' = map (\<lambda>d. if ident d = ident y then w else d) db"
      then have wy: "w = y \<lparr> updatedAt := now \<rparr>" by simp
      have d: "w \<noteq> c"
        unfolding wy y_def
        by (rule assignFields_differs) (use a xs in \<open>simp_all add: y_def\<close>)
      have un: "updatedAt w = now" by (simp add: wy)
      have dm: "db' = map (\<lambda>d. if ident d = ident c then w else d) db"
        using a by (simp add: fl)
      have fw:
        "customerName w = customerName y" "email w = email y" "phone w = phone y"
        "ordersCount w = ordersCount y" "orderTotal w = orderTotal y"
        "customerSince w = customerSince y" "status w = status y"
        "abandonedCarts w = abandonedCarts y" "ident w = ident y" "createdAt w = createdAt y"
        by (simp_all add: wy)
      show ?thesis
        by (intro exI [of _ w] conjI disjI2 p d un dm) (simp_all only: fw fl)
    qed
  qed
  show ?thesis using ok failed conflict by blast
qed

lemma example_findById: "findById exampleDb 1 = Some johnDoe"
  by (simp add: findById_def exampleDb_def johnDoe_def)

lemma trim_digits: "trim ''5550100'' = ''5550100''"
  by (simp add: trim_def isSpace_def)

theorem update_applies_present_fields_witness:
  "findById exampleDb 1 = Some johnDoe
   \<and> updateCustomer (\<lambda>e. True) exampleNow exampleDb (Some 1)
         (emptyBody \<lparr> b_phone := Some ''5550100'', b_ordersCount := Some 6 \<rparr>)
       = (\<lparr> httpStatus = 200, success = True, message = ''Customer updated successfully'',
            payload = Some (johnDoe \<lparr> phone := ''5550100'', ordersCount := 6,
                                      updatedAt := exampleNow \<rparr>) \<rparr>,
          [johnDoe \<lparr> phone := ''5550100'', ordersCount := 6, updatedAt := exampleNow \<rparr>,
           janeSmith])
   \<and> updateCustomer (\<lambda>e. True) exampleNow exampleDb (Some 1)
         (emptyBody \<lparr> b_customerSince := Some 0, b_abandonedCarts := Some 3 \<rparr>)
       = (\<lparr> httpStatus = 200, success = True, message = ''Customer updated successfully'',
            payload = Some (johnDoe \<lparr> abandonedCarts := 3, updatedAt := exampleNow \<rparr>) \<rparr>,
          [johnDoe \<lparr> abandonedCarts := 3, updatedAt := exampleNow \<rparr>, janeSmith])
   \<and> customerSince (johnDoe \<lparr> abandonedCarts := 3, updatedAt := exampleNow \<rparr>) = 1705276800000
   \<and> janeSmith \<in> set exampleDb
   \<and> email janeSmith = toLowerCase ''Jane.Smith@example.com''
   \<and> updateCustomer (\<lambda>e. True) exampleNow exampleDb (Some 1)
         (emptyBody \<lparr> b_email := Some ''Jane.Smith@example.com'' \<rparr>)
       = (failure 400 ''Another customer with this email already exists'', exampleDb)"
proof -
  let ?body = "emptyBody \<lparr> b_phone := Some ''5550100'', b_ordersCount := Some 6 \<rparr>"
  let ?body2 = "emptyBody \<lparr> b_email := Some ''Jane.Smith@example.com'' \<rparr>"
  obtain r db' where u: "updateCustomer (\<lambda>e. True) exampleNow exampleDb (Some 1) ?body = (r, db')"
    by (cases "updateCustomer (\<lambda>e. True) exampleNow exampleDb (Some 1) ?body")
  obtain r2 db2 where
    u2: "updateCustomer (\<lambda>e. True) exampleNow exampleDb (Some 1) ?body2 = (r2, db2)"
    by (cases "updateCustomer (\<lambda>e. True) exampleNow exampleDb (Some 1) ?body2")
  have j: "janeSmith \<in> set exampleDb" by (simp add: exampleDb_def)
  have l: "email janeSmith = toLowerCase ''Jane.Smith@example.com''"
    by code_simp
  have n: "''Jane.Smith@example.com'' \<noteq> email johnDoe" by (simp add: johnDoe_def)
  have e: "updateCustomer (\<lambda>e. True) exampleNow exampleDb (Some 1) ?body
       = (\<lparr> httpStatus = 200, success = True, message = ''Customer updated successfully'',
            payload = Some (johnDoe \<lparr> phone := ''5550100'', ordersCount := 6,
                                      updatedAt := exampleNow \<rparr>) \<rparr>,
          [johnDoe \<lparr> phone := ''5550100'', ordersCount := 6, updatedAt := exampleNow \<rparr>,
           janeSmith])"
    by (subst updateCustomer_found [OF example_findById])
      (simp add: emptyBody_def saveUpdated_def saveDocument_def assignFields_def trim_digits
        validateCustomer_def johnDoe_def janeSmith_def exampleDb_def exampleNow_def Let_def)
  have e3: "updateCustomer (\<lambda>e. True) exampleNow exampleDb (Some 1)
         (emptyBody \<lparr> b_customerSince := Some 0, b_abandonedCarts := Some 3 \<rparr>)
       = (\<lparr> httpStatus = 200, success = True, message = ''Customer updated successfully'',
            payload = Some (johnDoe \<lparr> abandonedCarts := 3, updatedAt := exampleNow \<rparr>) \<rparr>,
          [johnDoe \<lparr> abandonedCarts := 3, updatedAt := exampleNow \<rparr>, janeSmith])"
    by (subst updateCustomer_found [OF example_findById])
      (simp add: emptyBody_def saveUpdated_def saveDocument_def assignFields_def
        validateCustomer_def johnDoe_def janeSmith_def exampleDb_def exampleNow_def Let_def)
  have s3: "customerSince (johnDoe \<lparr> abandonedCarts := 3, updatedAt := exampleNow \<rparr>)
      = 1705276800000"
    by (simp add: johnDoe_def)
  have c3: "b_email ?body2 = Some x \<and> x \<noteq> [] \<and> x \<noteq> email johnDoe \<and> d \<in> set exampleDb
        \<and> email d = toLowerCase x \<longrightarrow>
      r2 = failure 400 ''Another customer with this email already exists'' \<and> db2 = exampleDb"
    for x d
    using update_applies_present_fields [OF example_findById u2] by blast
  have "r2 = failure 400 ''Another customer with this email already exists'' \<and> db2 = exampleDb"
    using c3 [of "''Jane.Smith@example.com''" janeSmith] j l n by (simp add: emptyBody_def)
  with u2 e e3 s3 j l example_findById show ?thesis by simp
qed

text \<open>
  C7 as stated fails: a request that carries \<open>customerName: ""\<close> for John Doe is
  answered 200, and the customerName of the record is still \<open>John Doe\<close>: the field is
  present in the request and is not applied.
\<close>

theorem update_skips_empty_name:
  "b_customerName (emptyBody \<lparr> b_customerName := Some [] \<rparr>) = Some []
   \<and> updateCustomer (\<lambda>e. True) exampleNow exampleDb (Some 1)
         (emptyBody \<lparr> b_customerName := Some [] \<rparr>)
       = (\<lparr> httpStatus = 200, success = True, message = ''Customer updated successfully'',
            payload = Some johnDoe \<rparr>, exampleDb)
   \<and> customerName johnDoe = ''John Doe''"
  by (subst updateCustomer_found [OF example_findById])
    (simp add: emptyBody_def saveUpdated_def saveDocument_def assignFields_def
      validateCustomer_def johnDoe_def Let_def)

subsection \<open>updateCustomerStatus\<close>

lemma status_update_same: "c \<lparr> status := s \<rparr> = c \<longleftrightarrow> s = status c"
  by (cases c) simp

lemma updateCustomerStatus_found:
  assumes "s = ''active'' \<or> s = ''inactive''" and "findById db i = Some c"
  shows "updateCustomerStatus emailMatch now db (Some i) (Some s)
        = (if \<not> validateCustomer emailMatch (c \<lparr> status := s \<rparr>)
           then (failure 500 ''Error updating customer status'', db)
           else if s = status c
           then (\<lparr> httpStatus = 200, success = True,
                    message = ''Customer status updated successfully'', payload = Some c \<rparr>, db)
           else (\<lparr> httpStatus = 200, success = True,
                    message = ''Customer status updated successfully'',
                    payload = Some (c \<lparr> status := s, updatedAt := now \<rparr>) \<rparr>,
                 map (\<lambda>d. if ident d = ident c then c \<lparr> status := s, updatedAt := now \<rparr> else d)
                   db))"
proof -
  have t: "truthy (Some s)" using assms(1) by (auto simp: truthy_def)
  have same: "s = status c \<Longrightarrow> c \<lparr> status := s \<rparr> = c" by (simp add: status_update_same)
  show ?thesis
    using assms t same
    by (auto simp: updateCustomerStatus_def saveDocument_def Let_def status_update_same)
qed

text \<open>
  C8 (as the code has it): a status-patch request whose status is absent or is neither
  \<open>active\<close> nor \<open>inactive\<close> is answered 400 and the collection is unchanged. A request
  with one of the two values on an existing customer is answered 500, the collection
  unchanged, when the record with the new status fails the schema's validation;
  otherwise it is answered 200 with the record in which the status is the new one, and
  in which updatedAt is the time of the save when the status differs from the stored
  one; no other field of the record and no other record changes.
\<close>

theorem status_patch_effect:
  "(statusIn \<noteq> Some ''active'' \<and> statusIn \<noteq> Some ''inactive'' \<longrightarrow>
      updateCustomerStatus emailMatch now db idParam statusIn
        = (failure 400 ''Valid status (active or inactive) is required'', db))
   \<and> ((s = ''active'' \<or> s = ''inactive'') \<and> findById db i = Some c \<longrightarrow>
      updateCustomerStatus emailMatch now db (Some i) (Some s)
        = (if \<not> validateCustomer emailMatch (c \<lparr> status := s \<rparr>)
           then (failure 500 ''Error updating customer status'', db)
           else if s = status c
           then (\<lparr> httpStatus = 200, success = True,
                    message = ''Customer status updated successfully'', payload = Some c \<rparr>, db)
           else (\<lparr> httpStatus = 200, success = True,
                    message = ''Customer status updated successfully'',
                    payload = Some (c \<lparr> status := s, updatedAt := now \<rparr>) \<rparr>,
                 map (\<lambda>d. if ident d = ident c then c \<lparr> status := s, updatedAt := now \<rparr> else d)
                   db)))"
proof (intro conjI impI)
  assume "statusIn \<noteq> Some ''active'' \<and> statusIn \<noteq> Some ''inactive''"
  then show "updateCustomerStatus emailMatch now db idParam statusIn
      = (failure 400 ''Valid status (active or inactive) is required'', db)"
    by (simp add: updateCustomerStatus_def)
next
  assume a: "(s = ''active'' \<or> s = ''inactive'') \<and> findById db i = Some c"
  then show "updateCustomerStatus emailMatch now db (Some i) (Some s)
        = (if \<not> validateCustomer emailMatch (c \<lparr> status := s \<rparr>)
           then (failure 500 ''Error updating customer status'', db)
           else if s = status c
           then (\<lparr> httpStatus = 200, success = True,
                    message = ''Customer status updated successfully'', payload = Some c \<rparr>, db)
           else (\<lparr> httpStatus = 200, success = True,
                    message = ''Customer status updated successfully'',
                    payload = Some (c \<lparr> status := s, updatedAt := now \<rparr>) \<rparr>,
                 map (\<lambda>d. if ident d = ident c then c \<lparr> status := s, updatedAt := now \<rparr> else d)
                   db))"
    by (simp only: updateCustomerStatus_found)
qed

theorem status_patch_effect_witness:
  "updateCustomerStatus (\<lambda>e. True) exampleNow exampleDb (Some 1) (Some ''archived'')
     = (failure 400 ''Valid status (active or inactive) is required'', exampleDb)
   \<and> findById exampleDb 1 = Some johnDoe
   \<and> updateCustomerStatus (\<lambda>e. True) exampleNow exampleDb (Some 1) (Some ''inactive'')
     = (\<lparr> httpStatus = 200, success = True,
          message = ''Customer status updated successfully'',
          payload = Some (johnDoe \<lparr> status := ''inactive'', updatedAt := exampleNow \<rparr>) \<rparr>,
        [johnDoe \<lparr> status := ''inactive'', updatedAt := exampleNow \<rparr>, janeSmith])"
proof -
  have v: "validateCustomer (\<lambda>e. True) (johnDoe \<lparr> status := ''inactive'' \<rparr>)"
    by (simp add: validateCustomer_def johnDoe_def)
  have n: "''inactive'' \<noteq> status johnDoe" by (simp add: johnDoe_def)
  have m: "map (\<lambda>d. if ident d = ident johnDoe
                    then johnDoe \<lparr> status := ''inactive'', updatedAt := exampleNow \<rparr> else d)
             exampleDb
           = [johnDoe \<lparr> status := ''inactive'', updatedAt := exampleNow \<rparr>, janeSmith]"
    by (simp add: exampleDb_def johnDoe_def janeSmith_def)
  from status_patch_effect [of "Some ''archived''" "\<lambda>e. True" exampleNow exampleDb "Some 1"
      "''inactive''" 1 johnDoe]
  show ?thesis
    using example_findById v n m by simp
qed

text \<open>
  C8 as stated fails: patching John Doe from \<open>active\<close> to \<open>inactive\<close> also sets his
  updatedAt to the time of the save, a field other than the status.
\<close>

theorem status_patch_touches_updatedAt:
  "snd (updateCustomerStatus (\<lambda>e. True) exampleNow exampleDb (Some 1) (Some ''inactive''))
     = [johnDoe \<lparr> status := ''inactive'', updatedAt := exampleNow \<rparr>, janeSmith]
   \<and> updatedAt (johnDoe \<lparr> status := ''inactive'', updatedAt := exampleNow \<rparr>) = exampleNow
   \<and> updatedAt johnDoe \<noteq> exampleNow"
  by (subst updateCustomerStatus_found [OF _ example_findById])
    (simp_all add: validateCustomer_def johnDoe_def janeSmith_def exampleDb_def exampleNow_def)

section \<open>Properties of the order hook\<close>

lemma newOrder_trackingId_None: "trackingId given = None \<Longrightarrow> trackingId (newOrder now given) = None"
  by (simp add: newOrder_def)

lemma save_without_trackingId:
  "trackingId given = None \<Longrightarrow> saveOrder now randomText db given = Inl ValidationError"
  by (simp add: saveOrder_def Let_def validateOrder_def requiredString_def
      newOrder_trackingId_None)

text \<open>
  C9 at the input \<open>{ customerName: "Jane Smith", orderTotal: 250 }\<close>, an order without
  a trackingId: the save is rejected by the \<open>required\<close> validator of \<open>trackingId\<close> and no
  order is stored.
\<close>

theorem order_without_trackingId_rejected:
  "saveOrder exampleNow ''0.4fzyo82mvyr'' [] (janeOrder \<lparr> trackingId := None \<rparr>)
     = Inl ValidationError"
  by (simp add: save_without_trackingId)

lemma upperChar_not_lower:
  "\<not> (97 \<le> (of_char (upperChar c) :: nat) \<and> (of_char (upperChar c) :: nat) \<le> 122)"
  by (auto simp: upperChar_def)

text \<open>
  What the hook assigns when it runs on a document without a trackingId: a string that
  starts with \<open>ORD-\<close>, followed by the upper-case base-36 digits of the clock value, a
  hyphen and the upper-case random suffix; no character of it is a lower-case letter.
\<close>

lemma generatedTrackingId_shape:
  "generatedTrackingId now randomText
     = ''ORD-'' @ toUpperCase (digitsOf 36 now) @ ''-'' @ toUpperCase (take 5 (drop 2 randomText))"
  by (simp add: generatedTrackingId_def toUpperCase_def upperChar_def)

lemma generatedTrackingId_upper:
  "c \<in> set (generatedTrackingId now randomText) \<Longrightarrow>
     \<not> (97 \<le> (of_char c :: nat) \<and> (of_char c :: nat) \<le> 122)"
  unfolding generatedTrackingId_def toUpperCase_def
  using upperChar_not_lower by auto

section \<open>Further properties\<close>

text \<open>
  The parts of C2 that hold: a previous count of 0 with a current count above 0 is
  rendered \<open>+100%\<close>, (current, previous) = (75, 50) is rendered \<open>+50.00%\<close> and (40, 80)
  is rendered \<open>-50.00%\<close>.
\<close>

theorem change_documented_values:
  "(0 < current \<longrightarrow> changeString current 0 = ''+100%'')
   \<and> changeString 75 50 = ''+50.00%'' \<and> changeString 40 80 = ''-50.00%''"
  by (simp add: change_from_zero change_example_up change_example_down)

theorem change_documented_values_witness:
  "(0::nat) < 3 \<and> changeString 3 0 = ''+100%''"
  using change_documented_values [of 3] by simp

text \<open>
  Creation with the three required fields only, a name and phone that are not blank, an
  email the pattern accepts and no customer has: the answer is 201, the new record is
  appended to the collection, and it has status \<open>active\<close>, ordersCount 0, orderTotal 0,
  abandonedCarts 0 and customerSince equal to the clock value.
\<close>

theorem create_defaults:
  assumes "body = emptyBody \<lparr> b_customerName := Some n, b_email := Some e, b_phone := Some p \<rparr>"
    and "trim n \<noteq> []" and "length (trim n) \<le> 100" and "trim p \<noteq> []"
    and "e \<noteq> []" and "emailMatch (toLowerCase e)"
    and "\<not> list_ex (\<lambda>d. email d = toLowerCase e) db"
  shows "\<exists>doc. createCustomer emailMatch now db body
           = (\<lparr> httpStatus = 201, success = True, message = ''Customer created successfully'',
                payload = Some doc \<rparr>, db @ [doc])
         \<and> customerName doc = trim n \<and> email doc = toLowerCase e \<and> phone doc = trim p
         \<and> status doc = ''active'' \<and> ordersCount doc = 0 \<and> orderTotal doc = 0
         \<and> abandonedCarts doc = 0 \<and> customerSince doc = now
         \<and> createdAt doc = now \<and> updatedAt doc = now"
proof -
  have n: "n \<noteq> []" using assms(2) by (auto simp: trim_def)
  have p: "p \<noteq> []" using assms(4) by (auto simp: trim_def)
  have le: "toLowerCase e \<noteq> []" using assms(5) by (simp add: toLowerCase_def)
  have f: "findOneByEmail db e = None"
    using assms(7) by (simp add: findOneByEmail_def find_None_iff list_ex_iff)
  show ?thesis
    using n p le f assms(2,3,4,5,6,7)
    by (simp add: assms(1) createCustomer_def emptyBody_def createDocument_def Let_def
        validateCustomer_def)
qed

theorem create_defaults_witness:
  "\<exists>doc. createCustomer (\<lambda>e. True) exampleNow exampleDb
            (emptyBody \<lparr> b_customerName := Some ''Ann Lee'', b_email := Some ''ann@example.com'',
                         b_phone := Some ''5550111'' \<rparr>)
           = (\<lparr> httpStatus = 201, success = True, message = ''Customer created successfully'',
                payload = Some doc \<rparr>, exampleDb @ [doc])
         \<and> status doc = ''active'' \<and> ordersCount doc = 0 \<and> orderTotal doc = 0
         \<and> customerSince doc = exampleNow"
proof -
  have t: "trim ''Ann Lee'' = ''Ann Lee''" "trim ''5550111'' = ''5550111''"
    by (simp_all add: trim_def isSpace_def)
  have l: "toLowerCase ''ann@example.com'' = ''ann@example.com''"
    by (simp add: toLowerCase_def lowerChar_def)
  have fresh: "\<not> list_ex (\<lambda>d. email d = toLowerCase ''ann@example.com'') exampleDb"
    by (simp add: l exampleDb_def johnDoe_def janeSmith_def)
  from create_defaults [OF refl _ _ _ _ _ fresh, of "''Ann Lee''" "''5550111''" "\<lambda>e. True" exampleNow]
  show ?thesis by (auto simp: t)
qed

text \<open>
  Deleting an identity that no record has is answered 404 and leaves the collection
  unchanged.
\<close>

theorem delete_missing:
  "findById db i = None \<Longrightarrow>
     deleteCustomer db (Some i) = (failure 404 ''Customer not found'', db)"
  by (simp add: deleteCustomer_def)

theorem delete_missing_witness:
  "findById exampleDb 7 = None
   \<and> deleteCustomer exampleDb (Some 7) = (failure 404 ''Customer not found'', exampleDb)"
proof -
  have n: "findById exampleDb 7 = None"
    by (simp add: findById_def exampleDb_def johnDoe_def janeSmith_def)
  from delete_missing [OF n] n show ?thesis by simp
qed

end
